theory Spec2Isabelle
  imports Complex_Main "HOL-Library.Sublist" "HOL-Library.Multiset"
begin

section \<open>JavaScript values\<close>

text \<open>
  A JavaScript string is a sequence of UTF-16 code units. Every literal of the sources is
  written here as the list of its code units (the characters of the opening-hours texts,
  of the keywords and of the regular expressions all lie in the Basic Multilingual Plane,
  one code unit each; the emoji of the tags are surrogate pairs).
\<close>

type_synonym jsstring = "nat list"

definition ascii :: "string \<Rightarrow> jsstring" where
  "ascii s = map of_char s"

text \<open>\<^verbatim>\<open>String.prototype.includes\<close>: the keyword occurs as a contiguous run of code units.\<close>

fun str_includes :: "jsstring \<Rightarrow> jsstring \<Rightarrow> bool" where
  "str_includes [] kw = (kw = [])"
| "str_includes (c # cs) kw = (prefix kw (c # cs) \<or> str_includes cs kw)"

text \<open>
  The values that an entry of an array of the Places API can hold: the values of a JSON
  document, and \<^verbatim>\<open>undefined\<close>. An object is a value without callable properties, so its
  content is left out. The falsy values are \<^verbatim>\<open>undefined\<close>, \<^verbatim>\<open>null\<close>, \<^verbatim>\<open>false\<close>, \<open>0\<close> and
  the empty string.
\<close>

datatype js_value = JUndefined | JNull | JBoolean bool | JNumber rat | JString jsstring
  | JArray "js_value list" | JObject

definition truthy :: "js_value \<Rightarrow> bool" where
  "truthy v =
     (case v of
        JUndefined \<Rightarrow> False
      | JNull \<Rightarrow> False
      | JBoolean b \<Rightarrow> b
      | JNumber x \<Rightarrow> x \<noteq> 0
      | JString s \<Rightarrow> s \<noteq> []
      | JArray vs \<Rightarrow> True
      | JObject \<Rightarrow> True)"

text \<open>\<^verbatim>\<open>a[i]\<close>: an index past the end of the array reads \<^verbatim>\<open>undefined\<close>.\<close>

definition array_get :: "js_value list \<Rightarrow> nat \<Rightarrow> js_value" where
  "array_get xs i = (if i < length xs then xs ! i else JUndefined)"

text \<open>
  A call of a method that the value does not have throws a \<^verbatim>\<open>TypeError\<close>.
  \<^verbatim>\<open>v.includes(kw)\<close> is \<^verbatim>\<open>String.prototype.includes\<close> on a string and
  \<^verbatim>\<open>Array.prototype.includes\<close> on an array (an element is the string \<open>kw\<close>); the other
  values have no such method. \<^verbatim>\<open>a || b\<close> evaluates \<open>b\<close> only when \<open>a\<close> is false.
\<close>

datatype js_error = TypeError

definition value_includes :: "js_value \<Rightarrow> jsstring \<Rightarrow> js_error + bool" where
  "value_includes v kw =
     (case v of
        JString s \<Rightarrow> Inr (str_includes s kw)
      | JArray vs \<Rightarrow> Inr (list_ex (\<lambda>x. x = JString kw) vs)
      | _ \<Rightarrow> Inl TypeError)"

definition lazy_or :: "js_error + bool \<Rightarrow> js_error + bool \<Rightarrow> js_error + bool" where
  "lazy_or a b = (case a of Inl e \<Rightarrow> Inl e | Inr x \<Rightarrow> if x then Inr True else b)"

subsection \<open>The clock\<close>

text \<open>
  \<^verbatim>\<open>new Date()\<close> reads the system clock. The three getters the sources call are the fields
  of a reading; the clock is the sequence of readings that the successive calls of
  \<^verbatim>\<open>new Date()\<close> will see (reading \<open>0\<close> is the next one), and a call consumes one.
\<close>

record date =
  getDay :: nat \<comment> \<open>0 = Sunday, 1 = Monday, ..., 6 = Saturday\<close>
  getHours :: nat
  getMinutes :: nat

type_synonym clock = "nat \<Rightarrow> date"

definition new_Date :: "clock \<Rightarrow> date \<times> clock" where
  "new_Date clk = (clk 0, \<lambda>n. clk (Suc n))"

subsection \<open>\<^verbatim>\<open>parseInt\<close>\<close>

text \<open>
  \<^verbatim>\<open>parseInt(string)\<close> with no radix: leading white space is skipped, a sign is read, a
  prefix \<^verbatim>\<open>0x\<close> or \<^verbatim>\<open>0X\<close> selects radix 16, and the longest run of digits is the value;
  no digit at all is \<^verbatim>\<open>NaN\<close> (\<open>None\<close>). \<open>parseInt\<close> below is the integer that is read;
  \<open>parseInt_Number\<close> is the Number that the call returns, the integer rounded to a
  double.
\<close>

definition isStrWhiteSpaceChar :: "nat \<Rightarrow> bool" where
  "isStrWhiteSpaceChar c =
     (c \<in> set [9, 10, 11, 12, 13, 32, 160, 5760, 8232, 8233, 8239, 8287, 12288, 65279]
      \<or> (8192 \<le> c \<and> c \<le> 8202))"

definition radixDigit :: "nat \<Rightarrow> nat \<Rightarrow> nat option" where
  "radixDigit R c =
     (if 48 \<le> c \<and> c \<le> 57 \<and> c - 48 < R then Some (c - 48)
      else if 97 \<le> c \<and> c \<le> 122 \<and> c - 87 < R then Some (c - 87)
      else if 65 \<le> c \<and> c \<le> 90 \<and> c - 55 < R then Some (c - 55)
      else None)"

fun parseDigits :: "nat \<Rightarrow> jsstring \<Rightarrow> nat option \<Rightarrow> nat option" where
  "parseDigits R [] acc = acc"
| "parseDigits R (c # cs) acc =
     (case radixDigit R c of
        None \<Rightarrow> acc
      | Some d \<Rightarrow> parseDigits R cs (Some (R * (case acc of None \<Rightarrow> 0 | Some a \<Rightarrow> a) + d)))"

fun stripSign :: "jsstring \<Rightarrow> int \<times> jsstring" where
  "stripSign [] = (1, [])"
| "stripSign (c # cs) = (if c = 45 then (- 1, cs) else if c = 43 then (1, cs) else (1, c # cs))"

fun stripPrefix :: "jsstring \<Rightarrow> nat \<times> jsstring" where
  "stripPrefix (a # b # cs) =
     (if a = 48 \<and> (b = 120 \<or> b = 88) then (16, cs) else (10, a # b # cs))"
| "stripPrefix cs = (10, cs)"

definition parseInt :: "jsstring \<Rightarrow> int option" where
  "parseInt str =
     (let (sign, s) = stripSign (dropWhile isStrWhiteSpaceChar str);
          (R, z) = stripPrefix s
      in map_option (\<lambda>n. sign * int n) (parseDigits R z None))"

text \<open>
  The Number of an integer: the nearest double, a tie going to the even significand of
  53 bits, and an infinity from \<open>2^1024\<close> on (the correctly rounded value, which the
  engines compute; the standard allows an approximation after the 20th digit). The
  finite results are integers again.
\<close>

datatype number = NaN | Finite int | PosInfinity | NegInfinity

fun bit_length :: "nat \<Rightarrow> nat" where
  "bit_length n = (if n = 0 then 0 else Suc (bit_length (n div 2)))"

declare bit_length.simps [simp del]

definition round_to_double :: "nat \<Rightarrow> nat" where
  "round_to_double n =
     (if bit_length n \<le> 53 then n
      else
        let e = bit_length n - 53;
            q = n div 2 ^ e;
            r = n mod 2 ^ e;
            half = 2 ^ (e - 1);
            q' = (if r > half \<or> (r = half \<and> odd q) then q + 1 else q)
        in q' * 2 ^ e)"

definition to_Number :: "int \<Rightarrow> number" where
  "to_Number i =
     (let m = round_to_double (nat \<bar>i\<bar>)
      in if m \<ge> 2 ^ 1024 then (if i < 0 then NegInfinity else PosInfinity)
         else Finite (if i < 0 then - int m else int m))"

definition parseInt_Number :: "jsstring \<Rightarrow> number" where
  "parseInt_Number str = (case parseInt str of None \<Rightarrow> NaN | Some i \<Rightarrow> to_Number i)"

text \<open>
  \<^verbatim>\<open>x || d\<close> on a Number: \<^verbatim>\<open>NaN\<close> and zero are falsy. \<^verbatim>\<open>a <= x\<close> for a finite \<open>a\<close>.
\<close>

definition number_or :: "number \<Rightarrow> number \<Rightarrow> number" where
  "number_or x d =
     (case x of NaN \<Rightarrow> d | Finite i \<Rightarrow> if i = 0 then d else Finite i
      | PosInfinity \<Rightarrow> PosInfinity | NegInfinity \<Rightarrow> NegInfinity)"

definition le_number :: "rat \<Rightarrow> number \<Rightarrow> bool" where
  "le_number a x =
     (case x of NaN \<Rightarrow> False | Finite i \<Rightarrow> a \<le> of_int i
      | PosInfinity \<Rightarrow> True | NegInfinity \<Rightarrow> False)"

section \<open>hours-parser.js\<close>

subsection \<open>The time-range regular expression\<close>

text \<open>
  \<^verbatim>\<open>/(\d{1,2})H(\d{2})M?[seps](\d{1,2})H(\d{2})M?/\<close>, where \<open>H\<close> is U+6642 (hour),
  \<open>M\<close> is U+5206 (minute) and the separators are U+FF5E, U+301C, \<^verbatim>\<open>~\<close> and \<^verbatim>\<open>-\<close>.
  Each piece of the expression returns its possible matches at the head of the text in
  the order the backtracking matcher tries them (greedy first), as the captured code
  units and the rest of the text; \<^verbatim>\<open>\d\<close> is an ASCII digit.
\<close>

definition isDigit :: "nat \<Rightarrow> bool" where
  "isDigit c = (48 \<le> c \<and> c \<le> 57)"

fun re_digits_1_2 :: "jsstring \<Rightarrow> (jsstring \<times> jsstring) list" where
  "re_digits_1_2 (a # b # s) =
     (if isDigit a then (if isDigit b then [([a, b], s)] else []) @ [([a], b # s)] else [])"
| "re_digits_1_2 [a] = (if isDigit a then [([a], [])] else [])"
| "re_digits_1_2 [] = []"

fun re_digits_2 :: "jsstring \<Rightarrow> (jsstring \<times> jsstring) list" where
  "re_digits_2 (a # b # s) = (if isDigit a \<and> isDigit b then [([a, b], s)] else [])"
| "re_digits_2 s = []"

fun re_char :: "nat \<Rightarrow> jsstring \<Rightarrow> jsstring list" where
  "re_char x (c # s) = (if c = x then [s] else [])"
| "re_char x [] = []"

definition re_opt_char :: "nat \<Rightarrow> jsstring \<Rightarrow> jsstring list" where
  "re_opt_char x s = re_char x s @ [s]"

fun re_class :: "nat list \<Rightarrow> jsstring \<Rightarrow> jsstring list" where
  "re_class xs (c # s) = (if c \<in> set xs then [s] else [])"
| "re_class xs [] = []"

definition timeRange_at ::
  "jsstring \<Rightarrow> (jsstring \<times> jsstring \<times> jsstring \<times> jsstring) list" where
  "timeRange_at s0 =
     List.bind (re_digits_1_2 s0) (\<lambda>(g1, s1).
     List.bind (re_char 26178 s1) (\<lambda>s2.
     List.bind (re_digits_2 s2) (\<lambda>(g2, s3).
     List.bind (re_opt_char 20998 s3) (\<lambda>s4.
     List.bind (re_class [65374, 12316, 126, 45] s4) (\<lambda>s5.
     List.bind (re_digits_1_2 s5) (\<lambda>(g3, s6).
     List.bind (re_char 26178 s6) (\<lambda>s7.
     List.bind (re_digits_2 s7) (\<lambda>(g4, s8).
     List.bind (re_opt_char 20998 s8) (\<lambda>s9.
       [(g1, g2, g3, g4)])))))))))"

text \<open>
  \<^verbatim>\<open>todayText.match(re)\<close> without the global flag: the first match at the leftmost
  position where there is one, or \<^verbatim>\<open>null\<close>.
\<close>

fun timeRangeMatch :: "jsstring \<Rightarrow> (jsstring \<times> jsstring \<times> jsstring \<times> jsstring) option" where
  "timeRangeMatch [] = None"
| "timeRangeMatch (c # cs) =
     (case timeRange_at (c # cs) of m # _ \<Rightarrow> Some m | [] \<Rightarrow> timeRangeMatch cs)"

subsection \<open>\<^verbatim>\<open>HoursParser.isCurrentlyOpen\<close>\<close>

text \<open>
  \<^verbatim>\<open>todayText.match(re)\<close>: only a string has the method.
\<close>

definition value_match ::
  "js_value \<Rightarrow> js_error + (jsstring \<times> jsstring \<times> jsstring \<times> jsstring) option" where
  "value_match v = (case v of JString s \<Rightarrow> Inr (timeRangeMatch s) | _ \<Rightarrow> Inl TypeError)"

text \<open>
  The argument is \<^verbatim>\<open>null\<close>/\<^verbatim>\<open>undefined\<close> (\<open>None\<close>) or an array of entries, by its
  documentation an \<^verbatim>\<open>Array<string>\<close>. The function returns \<^verbatim>\<open>true\<close> (open), \<^verbatim>\<open>false\<close>
  (closed) or \<^verbatim>\<open>null\<close> (unknown, \<open>None\<close>), or throws. The markers are U+5B9A U+4F11
  U+65E5 and U+4F11 U+696D U+65E5 (closed day), and \<^verbatim>\<open>24\<close> followed by U+6642 U+9593
  U+55B6 U+696D (open 24 hours), with and without a space after the digits. The captures
  of the time range have one or two digits, so their Numbers are the integers that
  \<open>parseInt\<close> reads, and the decision computes with the integers; a comparison with
  \<^verbatim>\<open>NaN\<close> is false.
\<close>

definition isCurrentlyOpen ::
  "js_value list option \<Rightarrow> clock \<Rightarrow> (js_error + bool option) \<times> clock" where
  "isCurrentlyOpen weekdayText clk =
     (case weekdayText of
        None \<Rightarrow> (Inr None, clk)
      | Some wt \<Rightarrow>
          if length wt = 0 then (Inr None, clk)
          else
            let (now, clk') = new_Date clk;
                dayOfWeek = getDay now;
                currentHour = getHours now;
                currentMinute = getMinutes now;
                currentTimeInMinutes = int currentHour * 60 + int currentMinute;
                googleDayIndex = (if dayOfWeek = 0 then 6 else dayOfWeek - 1);
                todayText = array_get wt googleDayIndex
            in (if \<not> truthy todayText then Inr None
                else
                  (case lazy_or (value_includes todayText [23450, 20241, 26085])
                          (value_includes todayText [20241, 26989, 26085]) of
                     Inl e \<Rightarrow> Inl e
                   | Inr True \<Rightarrow> Inr (Some False)
                   | Inr False \<Rightarrow>
                  (case lazy_or (value_includes todayText [50, 52, 32, 26178, 38291, 21942, 26989])
                          (value_includes todayText [50, 52, 26178, 38291, 21942, 26989]) of
                     Inl e \<Rightarrow> Inl e
                   | Inr True \<Rightarrow> Inr (Some True)
                   | Inr False \<Rightarrow>
                  (case value_match todayText of
                     Inl e \<Rightarrow> Inl e
                   | Inr None \<Rightarrow> Inr None
                   | Inr (Some (g1, g2, g3, g4)) \<Rightarrow>
                       (case (parseInt g1, parseInt g2, parseInt g3, parseInt g4) of
                          (Some openHour, Some openMinute, Some closeHour, Some closeMinute) \<Rightarrow>
                            let openTimeInMinutes = openHour * 60 + openMinute;
                                closeTimeInMinutes = closeHour * 60 + closeMinute
                            in if closeTimeInMinutes < openTimeInMinutes then
                                 if currentTimeInMinutes < openTimeInMinutes
                                 then Inr (Some (currentTimeInMinutes
                                                  \<le> (closeTimeInMinutes + 24 * 60) - 24 * 60))
                                 else Inr (Some (currentTimeInMinutes \<ge> openTimeInMinutes
                                            \<and> currentTimeInMinutes \<le> closeTimeInMinutes + 24 * 60))
                               else Inr (Some (currentTimeInMinutes \<ge> openTimeInMinutes
                                          \<and> currentTimeInMinutes \<le> closeTimeInMinutes))
                        | _ \<Rightarrow> Inr (Some False))))),
                clk'))"

subsection \<open>\<^verbatim>\<open>HoursParser.estimateCongestionFromReviews\<close>\<close>

text \<open>A review object of the Place Details response; only its \<^verbatim>\<open>text\<close> is read.\<close>

record review =
  review_text :: "jsstring option"

text \<open>\<^verbatim>\<open>review.text || ''\<close>: an absent text reads as the empty string.\<close>

definition text_or_empty :: "jsstring option \<Rightarrow> jsstring" where
  "text_or_empty t = (case t of None \<Rightarrow> [] | Some s \<Rightarrow> s)"

definition keywords_crowded :: "jsstring list" where
  "keywords_crowded =
     [[34892, 21015], [28151, 38609], [28288, 24109], [24453, 12385, 26178, 38291],
      [20006, 12406], [20154, 27671], [36049, 12431]]"

definition keywords_empty :: "jsstring list" where
  "keywords_empty =
     [[31354, 12356, 12390], [12377, 12356, 12390], [12460, 12521, 12460, 12521],
      [36024, 20999], [31348, 22580]]"

text \<open>
  \<^verbatim>\<open>for (const keyword of ks) { if (text.includes(keyword)) { count++; break; } }\<close>
\<close>

fun count_keyword :: "jsstring \<Rightarrow> jsstring list \<Rightarrow> nat \<Rightarrow> nat" where
  "count_keyword txt [] cnt = cnt"
| "count_keyword txt (keyword # ks) cnt =
     (if str_includes txt keyword then cnt + 1 else count_keyword txt ks cnt)"

definition review_step :: "review \<Rightarrow> nat \<times> nat \<Rightarrow> nat \<times> nat" where
  "review_step r = (\<lambda>(crowdedCount, emptyCount).
     let txt = text_or_empty (review_text r)
     in (count_keyword txt keywords_crowded crowdedCount,
         count_keyword txt keywords_empty emptyCount))"

definition estimateCongestionFromReviews :: "review list option \<Rightarrow> jsstring option" where
  "estimateCongestionFromReviews reviews =
     (case reviews of
        None \<Rightarrow> None
      | Some rs \<Rightarrow>
          if length rs = 0 then None
          else
            let (crowdedCount, emptyCount) = fold review_step (take 5 rs) (0, 0)
            in if crowdedCount > emptyCount \<and> crowdedCount \<ge> 2 then Some (ascii ''crowded'')
               else if emptyCount > crowdedCount \<and> emptyCount \<ge> 2 then Some (ascii ''empty'')
               else None)"

section \<open>places.js\<close>

text \<open>
  A JavaScript number that is a rating or a distance of a place is modelled by the
  rational it denotes, a count and a price level by an integer; \<^verbatim>\<open>NaN\<close> and the
  infinities are not values of these fields (the radius of the search is a \<open>number\<close>).
  \<^verbatim>\<open>x || d\<close> on a number that may be absent is \<open>d\<close> when \<open>x\<close> is absent or zero.
\<close>

definition js_or :: "'a::zero option \<Rightarrow> 'a \<Rightarrow> 'a" where
  "js_or x d = (case x of None \<Rightarrow> d | Some v \<Rightarrow> if v = 0 then d else v)"

definition js_or_null :: "'a::zero option \<Rightarrow> 'a option" where
  "js_or_null x = (case x of None \<Rightarrow> None | Some v \<Rightarrow> if v = 0 then None else Some v)"

subsection \<open>Data\<close>

text \<open>
  A result of the Places API, with the fields the pipeline reads. \<^verbatim>\<open>opening_hours\<close> may be
  absent; its method \<^verbatim>\<open>isOpen()\<close> returns a boolean or \<^verbatim>\<open>undefined\<close>, or throws.
\<close>

datatype isOpen_call = Returns "bool option" | Throws

record place_result =
  api_place_id :: jsstring
  api_name :: jsstring
  api_rating :: "rat option"
  api_user_ratings_total :: "int option"
  api_price_level :: "int option"
  api_opening_hours :: "isOpen_call option"
  api_lat :: rat
  api_lng :: rat

record congestion =
  level :: jsstring
  label :: jsstring
  color :: jsstring

text \<open>
  The object built by \<^verbatim>\<open>formatPlace\<close>. The fields \<^verbatim>\<open>address\<close>, \<^verbatim>\<open>types\<close>, \<^verbatim>\<open>distanceText\<close>,
  \<^verbatim>\<open>walkTime\<close>, \<^verbatim>\<open>taxiTime\<close>, \<^verbatim>\<open>photoUrl\<close> and \<^verbatim>\<open>icon\<close> are for display only and are
  left out; \<^verbatim>\<open>id\<close> is \<open>pid\<close> here.
\<close>

record place =
  pid :: jsstring
  name :: jsstring
  rating :: "rat option"
  ratingsTotal :: "int option"
  priceLevel :: "int option"
  isOpen :: "bool option"
  lat :: rat
  lng :: rat
  distance :: rat
  congestion :: congestion

record location =
  loc_lat :: rat
  loc_lng :: rat

record filters =
  f_category :: jsstring
  f_distance :: jsstring
  f_budget :: "jsstring option"
  f_smoking :: jsstring
  f_cuisine :: "jsstring option"

text \<open>\<^verbatim>\<open>BUDGET_PRICE_MAP\<close>, keyed by \<^verbatim>\<open>'1000'\<close>, \<^verbatim>\<open>'3000'\<close>, \<^verbatim>\<open>'5000'\<close>, \<^verbatim>\<open>'10000'\<close>, \<^verbatim>\<open>'10001'\<close>.\<close>

definition BUDGET_PRICE_MAP :: "(jsstring \<times> (int \<times> int)) list" where
  "BUDGET_PRICE_MAP =
     [(ascii ''1000'', (0, 1)),
      (ascii ''3000'', (1, 2)),
      (ascii ''5000'', (2, 3)),
      (ascii ''10000'', (3, 4)),
      (ascii ''10001'', (3, 4))]"

subsection \<open>\<^verbatim>\<open>estimateCongestion\<close>\<close>

text \<open>
  The labels are U+6DF7 U+96D1 (high), U+3084 U+3084 U+6DF7 U+96D1 (medium),
  U+666E U+901A (low) and U+7A7A U+3044 U+3066 U+3044 U+308B (empty).
\<close>

definition estimateCongestion :: "place_result \<Rightarrow> clock \<Rightarrow> congestion \<times> clock" where
  "estimateCongestion place clk =
     (let (now, clk') = new_Date clk;
          hour = getHours now;
          day = getDay now;
          isWeekend = (day = 0 \<or> day = 6);
          reviewCount = js_or (api_user_ratings_total place) 0;
          rating = js_or (api_rating place) 3.0;
          timeScore = (if (hour \<ge> 11 \<and> hour \<le> 13) \<or> (hour \<ge> 18 \<and> hour \<le> 20) then 3
                       else if hour \<ge> 14 \<and> hour \<le> 17 then 1
                       else 2);
          timeScore = (if isWeekend then timeScore + 1 else timeScore);
          popularityScore = (if reviewCount > 500 then 3
                             else if reviewCount > 100 then 2
                             else if reviewCount > 30 then 1
                             else 0);
          popularityScore = (if rating \<ge> 4.3 then popularityScore + 1 else popularityScore);
          totalScore = timeScore + popularityScore :: nat
      in (if totalScore \<ge> 6 then
            \<lparr>level = ascii ''high'', label = [28151, 38609], color = ascii ''#e57373''\<rparr>
          else if totalScore \<ge> 4 then
            \<lparr>level = ascii ''medium'', label = [12420, 12420, 28151, 38609],
             color = ascii ''#ffb74d''\<rparr>
          else if totalScore \<ge> 2 then
            \<lparr>level = ascii ''low'', label = [26222, 36890], color = ascii ''#81c784''\<rparr>
          else
            \<lparr>level = ascii ''empty'', label = [31354, 12356, 12390, 12356, 12427],
             color = ascii ''#4fc3f7''\<rparr>,
          clk'))"

subsection \<open>\<^verbatim>\<open>formatPlace\<close>\<close>

text \<open>
  \<^verbatim>\<open>LocationService.calculateDistance\<close> is floating-point trigonometry (the haversine
  formula); the pipeline only compares its result, so the function is a parameter here.
\<close>

type_synonym calculateDistance = "rat \<Rightarrow> rat \<Rightarrow> rat \<Rightarrow> rat \<Rightarrow> rat"

definition formatPlace ::
  "calculateDistance \<Rightarrow> place_result \<Rightarrow> location \<Rightarrow> clock \<Rightarrow> place \<times> clock" where
  "formatPlace calcDistance place userLocation clk =
     (let distance = calcDistance (loc_lat userLocation) (loc_lng userLocation)
                       (api_lat place) (api_lng place);
          isOpen = (case api_opening_hours place of
                      None \<Rightarrow> None
                    | Some (Returns b) \<Rightarrow> b
                    | Some Throws \<Rightarrow> None);
          (congestion, clk') = estimateCongestion place clk
      in (\<lparr>pid = api_place_id place,
           name = api_name place,
           rating = js_or_null (api_rating place),
           ratingsTotal = Some (js_or (api_user_ratings_total place) 0),
           priceLevel = api_price_level place,
           isOpen = isOpen,
           lat = api_lat place,
           lng = api_lng place,
           distance = distance,
           congestion = congestion\<rparr>,
          clk'))"

subsection \<open>\<^verbatim>\<open>searchNearby\<close>\<close>

text \<open>\<^verbatim>\<open>results.map(place => formatPlace(place, location))\<close>, each call reading the clock.\<close>

fun formatPlaces ::
  "calculateDistance \<Rightarrow> location \<Rightarrow> place_result list \<Rightarrow> clock \<Rightarrow> place list \<times> clock" where
  "formatPlaces calcDistance userLocation [] clk = ([], clk)"
| "formatPlaces calcDistance userLocation (r # rs) clk =
     (let (p, clk1) = formatPlace calcDistance r userLocation clk;
          (ps, clk2) = formatPlaces calcDistance userLocation rs clk1
      in (p # ps, clk2))"

text \<open>\<^verbatim>\<open>const radius = parseInt(filters.distance) || 800\<close>\<close>

definition radius :: "filters \<Rightarrow> number" where
  "radius flt = number_or (parseInt_Number (f_distance flt)) (Finite 800)"

text \<open>
  \<^verbatim>\<open>BUDGET_PRICE_MAP[filters.budget]\<close> looks the key up in the object and then in its
  prototype, \<^verbatim>\<open>Object.prototype\<close>: an own key gives its range, the name of a property of
  \<^verbatim>\<open>Object.prototype\<close> (those of the standard and of its annex for browsers) gives a
  function or an object, a truthy value without \<^verbatim>\<open>min\<close> and \<^verbatim>\<open>max\<close>, and any other key
  gives \<^verbatim>\<open>undefined\<close>. A budget that is \<^verbatim>\<open>null\<close> or the empty string is falsy.
\<close>

datatype price_entry = OwnRange int int | InheritedValue

definition Object_prototype_keys :: "jsstring list" where
  "Object_prototype_keys =
     [ascii ''constructor'', ascii ''hasOwnProperty'', ascii ''isPrototypeOf'',
      ascii ''propertyIsEnumerable'', ascii ''toLocaleString'', ascii ''toString'',
      ascii ''valueOf'', ascii ''__proto__'', ascii ''__defineGetter__'',
      ascii ''__defineSetter__'', ascii ''__lookupGetter__'', ascii ''__lookupSetter__'']"

definition priceRange :: "filters \<Rightarrow> price_entry option" where
  "priceRange flt =
     (case f_budget flt of
        None \<Rightarrow> None
      | Some b \<Rightarrow>
          if b = [] then None
          else
            (case map_of BUDGET_PRICE_MAP b of
               Some (pmin, pmax) \<Rightarrow> Some (OwnRange pmin pmax)
             | None \<Rightarrow> if b \<in> set Object_prototype_keys then Some InheritedValue else None))"

text \<open>
  The three filters of the callback, in their order. With an inherited value for the
  range, \<^verbatim>\<open>priceRange.min\<close> is \<^verbatim>\<open>undefined\<close> and \<^verbatim>\<open>p.priceLevel >= undefined\<close> is false.
\<close>

definition filter_places :: "filters \<Rightarrow> place list \<Rightarrow> place list" where
  "filter_places flt places0 =
     (let places1 = filter (\<lambda>p. isOpen p = Some True) places0;
          places2 = filter (\<lambda>p. le_number (distance p) (radius flt)) places1
      in case priceRange flt of
           None \<Rightarrow> places2
         | Some (OwnRange pmin pmax) \<Rightarrow>
             filter (\<lambda>p. case priceLevel p of
                            None \<Rightarrow> True
                          | Some l \<Rightarrow> l \<ge> pmin \<and> l \<le> pmax) places2
         | Some InheritedValue \<Rightarrow>
             filter (\<lambda>p. case priceLevel p of None \<Rightarrow> True | Some l \<Rightarrow> False) places2)"

text \<open>The comparator of \<^verbatim>\<open>places.sort\<close>.\<close>

definition compare_places :: "place \<Rightarrow> place \<Rightarrow> rat" where
  "compare_places a b =
     (let ratingDiff = js_or (rating b) 0 - js_or (rating a) 0
      in if ratingDiff \<noteq> 0 then ratingDiff
         else of_int (js_or (ratingsTotal b) 0 - js_or (ratingsTotal a) 0))"

text \<open>
  \<^verbatim>\<open>Array.prototype.sort\<close> with a comparator is a stable sort (ECMAScript 2019): an
  insertion sort from the right, where an element stays in front of those it compares
  equal to.
\<close>

fun insert_sorted :: "('a \<Rightarrow> 'a \<Rightarrow> rat) \<Rightarrow> 'a \<Rightarrow> 'a list \<Rightarrow> 'a list" where
  "insert_sorted cmp x [] = [x]"
| "insert_sorted cmp x (y # ys) =
     (if cmp x y \<le> 0 then x # y # ys else y # insert_sorted cmp x ys)"

definition array_sort :: "('a \<Rightarrow> 'a \<Rightarrow> rat) \<Rightarrow> 'a list \<Rightarrow> 'a list" where
  "array_sort cmp xs = foldr (insert_sorted cmp) xs []"

definition sort_places :: "place list \<Rightarrow> place list" where
  "sort_places places0 = array_sort compare_places places0"

text \<open>
  The promise of \<^verbatim>\<open>searchNearby\<close>. The service is absent before \<^verbatim>\<open>init\<close>; otherwise it
  answers the request with results (or \<^verbatim>\<open>null\<close>) and a status. The request itself (type,
  radius, keyword) only goes to the service.
\<close>

datatype status = OK | ZERO_RESULTS | REQUEST_DENIED | OVER_QUERY_LIMIT | INVALID_REQUEST
  | NOT_FOUND | UNKNOWN_ERROR

datatype search_error = NotInitialised | SearchFailed | ApiKeyInvalid | QuotaExceeded
  | RequestInvalid

definition searchNearby ::
  "calculateDistance \<Rightarrow> (place_result list option \<times> status) option \<Rightarrow> location \<Rightarrow> filters
     \<Rightarrow> clock \<Rightarrow> (search_error + place list) \<times> clock" where
  "searchNearby calcDistance service userLocation flt clk =
     (case service of
        None \<Rightarrow> (Inl NotInitialised, clk)
      | Some (results, st) \<Rightarrow>
          (case (st, results) of
             (OK, Some rs) \<Rightarrow>
               let (places0, clk') = formatPlaces calcDistance userLocation rs clk
               in (Inr (sort_places (filter_places flt places0)), clk')
           | (ZERO_RESULTS, _) \<Rightarrow> (Inr [], clk)
           | (REQUEST_DENIED, _) \<Rightarrow> (Inl ApiKeyInvalid, clk)
           | (OVER_QUERY_LIMIT, _) \<Rightarrow> (Inl QuotaExceeded, clk)
           | (INVALID_REQUEST, _) \<Rightarrow> (Inl RequestInvalid, clk)
           | _ \<Rightarrow> (Inl SearchFailed, clk)))"

subsection \<open>\<^verbatim>\<open>extractAtmosphereFromReviews\<close>\<close>

text \<open>
  Each pattern is an alternation of literals under the flag \<^verbatim>\<open>i\<close>, given here as the list
  of its alternatives, with its tag (the array \<^verbatim>\<open>keywords\<close> of the function). Under \<^verbatim>\<open>i\<close> two code units match when they have the
  same upper case; the only letters in the patterns are those of \<^verbatim>\<open>view\<close>, which nothing
  but their ASCII upper and lower case matches, and the Japanese characters have no case.
\<close>

definition atmosphere_keywords :: "(jsstring list \<times> jsstring) list" where
  "atmosphere_keywords =
     [
     ([[39640, 23652], [30522, 12417], [26223, 33394], [12499, 12517, 12540], [22812, 26223], [118, 105, 101, 119]],
      [55356, 57305, 65039, 32, 30522, 26395, 12364, 33391, 12356]),
     ([[19968, 36562, 23478], [38560, 12428, 23478], [21476, 27665, 23478]],
      [55356, 57312, 32, 19968, 36562, 23478, 12539, 38560, 12428, 23478]),
     ([[20491, 23460], [12503, 12521, 12452, 12505, 12540, 12488], [21322, 20491, 23460]],
      [55357, 57002, 32, 20491, 23460, 12354, 12426]),
     ([[12486, 12521, 12473], [23627, 19978], [12458, 12540, 12503, 12531]],
      [55356, 57151, 32, 12486, 12521, 12473, 24109]),
     ([[12487, 12540, 12488], [35352, 24565, 26085], [35477, 29983, 26085], [12525, 12510, 12531, 12481, 12483, 12463]],
      [55357, 56465, 32, 12487, 12540, 12488, 21521, 12365]),
     ([[12362, 12375, 12419, 12428], [12473, 12479, 12452, 12522, 12483, 12471, 12517], [12514, 12480, 12531]],
      [10024, 32, 12362, 12375, 12419, 12428]),
     ([[33853, 12385, 30528], [38745, 12363], [22823, 20154], [19978, 21697]],
      [55357, 56687, 65039, 32, 33853, 12385, 30528, 12356, 12383, 38640, 22258, 27671]),
     ([[24195, 12356], [38283, 25918], [12422, 12387, 12383, 12426]],
      [55356, 57307, 65039, 32, 38283, 25918, 30340]),
     ([[12459, 12454, 12531, 12479, 12540], [19968, 20154], [12477, 12525]],
      [55356, 57208, 32, 12459, 12454, 12531, 12479, 12540, 24109]),
     ([[25509, 23458], [12469, 12540, 12499, 12473], [12507, 12473, 12500, 12479, 12522, 12486, 12451]],
      [55357, 56420, 32, 12469, 12540, 12499, 12473, 9678]),
     ([[12467, 12473, 12497], [12522, 12540, 12474, 12490, 12502, 12523], [12362, 24471]],
      [55357, 56496, 32, 12467, 12473, 12497, 33391, 22909])]"

definition canonicalize :: "nat \<Rightarrow> nat" where
  "canonicalize c = (if 97 \<le> c \<and> c \<le> 122 then c - 32 else c)"

definition pattern_test :: "jsstring list \<Rightarrow> jsstring \<Rightarrow> bool" where
  "pattern_test alternatives txt =
     list_ex (\<lambda>alt. str_includes (map canonicalize txt) (map canonicalize alt)) alternatives"

text \<open>\<^verbatim>\<open>found.add(tag)\<close> on a \<^verbatim>\<open>Set\<close>, which keeps its elements in insertion order.\<close>

definition set_add :: "'a list \<Rightarrow> 'a \<Rightarrow> 'a list" where
  "set_add found x = (if x \<in> set found then found else found @ [x])"

definition keyword_step :: "jsstring \<Rightarrow> jsstring list \<times> jsstring \<Rightarrow> jsstring list \<Rightarrow> jsstring list" where
  "keyword_step txt = (\<lambda>(pattern, tag) found.
     if pattern_test pattern txt \<and> length found < 4 then set_add found tag else found)"

definition extractAtmosphereFromReviews :: "review list \<Rightarrow> jsstring list" where
  "extractAtmosphereFromReviews reviews =
     fold (\<lambda>review found.
             let txt = text_or_empty (review_text review)
             in fold (keyword_step txt) atmosphere_keywords found)
          reviews []"

section \<open>Reference definitions\<close>

text \<open>
  The congestion verdict as the specification words it, on the hour of day \<open>h\<close>, the
  weekday \<open>d\<close> (0 = Sunday, 6 = Saturday), the rating count \<open>c\<close> and the rating \<open>r\<close>;
  the estimator is compared with it below.
\<close>

definition time_score_spec :: "nat \<Rightarrow> nat \<Rightarrow> nat" where
  "time_score_spec h d =
     (if (11 \<le> h \<and> h \<le> 13) \<or> (18 \<le> h \<and> h \<le> 20) then 3
      else if 14 \<le> h \<and> h \<le> 17 then 1 else 2)
     + (if d = 6 \<or> d = 0 then 1 else 0)"

definition popularity_score_spec :: "int \<Rightarrow> rat \<Rightarrow> nat" where
  "popularity_score_spec c r =
     (if c > 500 then 3 else if c > 100 then 2 else if c > 30 then 1 else 0)
     + (if r \<ge> 4.3 then 1 else 0)"

definition verdict_spec :: "nat \<Rightarrow> congestion" where
  "verdict_spec t =
     (if t \<ge> 6 then
        \<lparr>level = ascii ''high'', label = [28151, 38609], color = ascii ''#e57373''\<rparr>
      else if t \<ge> 4 then
        \<lparr>level = ascii ''medium'', label = [12420, 12420, 28151, 38609],
         color = ascii ''#ffb74d''\<rparr>
      else if t \<ge> 2 then
        \<lparr>level = ascii ''low'', label = [26222, 36890], color = ascii ''#81c784''\<rparr>
      else
        \<lparr>level = ascii ''empty'', label = [31354, 12356, 12390, 12356, 12427],
         color = ascii ''#4fc3f7''\<rparr>)"

definition congestion_spec :: "nat \<Rightarrow> nat \<Rightarrow> int \<Rightarrow> rat \<Rightarrow> congestion" where
  "congestion_spec h d c r = verdict_spec (time_score_spec h d + popularity_score_spec c r)"

text \<open>
  The keys of the sort stage as the specification words them: an absent rating and an
  absent count are 0; a place ranks before another when its rating is higher, or the
  ratings are equal and its count is at least the other's.
\<close>

definition rating_key :: "place \<Rightarrow> rat" where
  "rating_key p = js_or (rating p) 0"

definition count_key :: "place \<Rightarrow> int" where
  "count_key p = js_or (ratingsTotal p) 0"

definition ranks_before :: "place \<Rightarrow> place \<Rightarrow> bool" where
  "ranks_before a b =
     (rating_key a > rating_key b \<or> (rating_key a = rating_key b \<and> count_key a \<ge> count_key b))"





text \<open>
  The parts of the open-now decision as the specification words them: the index of
  today's entry in the Monday-first table, the minute of the day, the two kinds of
  marker, and the verdict on a time range that opens at minute \<open>open_m\<close> and closes at
  minute \<open>close_m\<close>, at minute \<open>t\<close>.
\<close>

definition today_index :: "date \<Rightarrow> nat" where
  "today_index now = (if getDay now = 0 then 6 else getDay now - 1)"

definition minute_of_day :: "date \<Rightarrow> int" where
  "minute_of_day now = int (getHours now) * 60 + int (getMinutes now)"

definition has_closed_marker :: "jsstring \<Rightarrow> bool" where
  "has_closed_marker todayText =
     (str_includes todayText [23450, 20241, 26085] \<or> str_includes todayText [20241, 26989, 26085])"

definition has_open24_marker :: "jsstring \<Rightarrow> bool" where
  "has_open24_marker todayText =
     (str_includes todayText [50, 52, 32, 26178, 38291, 21942, 26989]
      \<or> str_includes todayText [50, 52, 26178, 38291, 21942, 26989])"

definition range_verdict :: "int \<Rightarrow> int \<Rightarrow> int \<Rightarrow> bool" where
  "range_verdict open_m close_m t =
     (if close_m \<ge> open_m then open_m \<le> t \<and> t \<le> close_m
      else if t < open_m then t \<le> close_m
      else open_m \<le> t \<and> t \<le> close_m + 1440)"

text \<open>
  The entries that the documentation of \<open>isCurrentlyOpen\<close> allows, a string or nothing;
  and the entries on which the function throws: a truthy value that is not a string,
  unless it is an array that holds one of the four markers.
\<close>

definition text_or_absent :: "js_value \<Rightarrow> bool" where
  "text_or_absent v =
     (case v of JString s \<Rightarrow> True | JUndefined \<Rightarrow> True | JNull \<Rightarrow> True | _ \<Rightarrow> False)"

definition all_markers :: "jsstring list" where
  "all_markers =
     [[23450, 20241, 26085], [20241, 26989, 26085],
      [50, 52, 32, 26178, 38291, 21942, 26989], [50, 52, 26178, 38291, 21942, 26989]]"

definition throws_on :: "js_value \<Rightarrow> bool" where
  "throws_on v =
     (case v of
        JBoolean b \<Rightarrow> b
      | JNumber x \<Rightarrow> x \<noteq> 0
      | JObject \<Rightarrow> True
      | JArray vs \<Rightarrow> list_all (\<lambda>x. x \<notin> set (map JString all_markers)) vs
      | _ \<Rightarrow> False)"

text \<open>
  The part of \<open>isCurrentlyOpen\<close> that follows the reading of today's entry, as a function
  of the entry and of the minute of the day; the proofs go through it.
\<close>

definition entry_decision :: "js_value \<Rightarrow> int \<Rightarrow> js_error + bool option" where
  "entry_decision todayText currentTimeInMinutes =
     (if \<not> truthy todayText then Inr None
      else
        (case lazy_or (value_includes todayText [23450, 20241, 26085])
                (value_includes todayText [20241, 26989, 26085]) of
           Inl e \<Rightarrow> Inl e
         | Inr True \<Rightarrow> Inr (Some False)
         | Inr False \<Rightarrow>
        (case lazy_or (value_includes todayText [50, 52, 32, 26178, 38291, 21942, 26989])
                (value_includes todayText [50, 52, 26178, 38291, 21942, 26989]) of
           Inl e \<Rightarrow> Inl e
         | Inr True \<Rightarrow> Inr (Some True)
         | Inr False \<Rightarrow>
        (case value_match todayText of
           Inl e \<Rightarrow> Inl e
         | Inr None \<Rightarrow> Inr None
         | Inr (Some (g1, g2, g3, g4)) \<Rightarrow>
             (case (parseInt g1, parseInt g2, parseInt g3, parseInt g4) of
                (Some openHour, Some openMinute, Some closeHour, Some closeMinute) \<Rightarrow>
                  let openTimeInMinutes = openHour * 60 + openMinute;
                      closeTimeInMinutes = closeHour * 60 + closeMinute
                  in if closeTimeInMinutes < openTimeInMinutes then
                       if currentTimeInMinutes < openTimeInMinutes
                       then Inr (Some (currentTimeInMinutes
                                        \<le> (closeTimeInMinutes + 24 * 60) - 24 * 60))
                       else Inr (Some (currentTimeInMinutes \<ge> openTimeInMinutes
                                  \<and> currentTimeInMinutes \<le> closeTimeInMinutes + 24 * 60))
                     else Inr (Some (currentTimeInMinutes \<ge> openTimeInMinutes
                                \<and> currentTimeInMinutes \<le> closeTimeInMinutes))
              | _ \<Rightarrow> Inr (Some False))))))"

text \<open>What the time-range expression captures: one or two digits.\<close>

definition capture_ok :: "jsstring \<Rightarrow> bool" where
  "capture_ok g = (g \<noteq> [] \<and> length g \<le> 2 \<and> list_all isDigit g)"

text \<open>
  Day texts of the examples: 18:00 to 2:00 and 7:00 to 20:00 in the notation of the
  hours texts (separator U+301C), the marker of a day open 24 hours, the marker of a
  closed day, a week open 24 hours but for the closed day of index \<open>k\<close>, and a text in a
  notation that the parser does not know (\<^verbatim>\<open>18:00-2:00\<close>).
\<close>

definition overnight_text :: jsstring where
  "overnight_text = [49, 56, 26178, 48, 48, 20998, 12316, 50, 26178, 48, 48, 20998]"

definition standard_text :: jsstring where
  "standard_text = [55, 26178, 48, 48, 20998, 12316, 50, 48, 26178, 48, 48, 20998]"

definition open24_text :: jsstring where
  "open24_text = [50, 52, 26178, 38291, 21942, 26989]"

definition closed_text :: jsstring where
  "closed_text = [23450, 20241, 26085]"

definition week_closed_on :: "nat \<Rightarrow> js_value list" where
  "week_closed_on k = (replicate 7 (JString open24_text))[k := JString closed_text]"

definition unparsable_text :: jsstring where
  "unparsable_text = [49, 56, 58, 48, 48, 45, 50, 58, 48, 48]"

text \<open>
  The counters of the review estimate as the specification words them: a review mentions
  a keyword list when its text includes one of the keywords; the crowded count and the
  empty count are the numbers of such reviews among the first five.
\<close>

definition mentions :: "jsstring list \<Rightarrow> review \<Rightarrow> bool" where
  "mentions ks r = list_ex (str_includes (text_or_empty (review_text r))) ks"

definition crowded_count :: "review list \<Rightarrow> nat" where
  "crowded_count rs = length (filter (mentions keywords_crowded) (take 5 rs))"

definition empty_count :: "review list \<Rightarrow> nat" where
  "empty_count rs = length (filter (mentions keywords_empty) (take 5 rs))"

text \<open>
  Reviews of the examples: one with the crowded keyword U+884C U+5217, one with the
  empty keyword U+7A74 U+5834, one without text.
\<close>

definition crowded_review :: review where
  "crowded_review = \<lparr>review_text = Some [34892, 21015, 12364, 12354, 12427]\<rparr>"

definition quiet_review :: review where
  "quiet_review = \<lparr>review_text = Some [31348, 22580, 12391, 12377]\<rparr>"

definition plain_review :: review where
  "plain_review = \<lparr>review_text = None\<rparr>"

text \<open>
  The tags whose patterns match a review, in the order of the rule list; the first
  occurrences of the elements of a list, in their order; and the property of a list of
  tags that the specification words: it lists its tags in the order of the rule list.
\<close>

definition matched_tags :: "review \<Rightarrow> jsstring list" where
  "matched_tags r =
     map snd (filter (\<lambda>(pattern, tag). pattern_test pattern (text_or_empty (review_text r)))
                atmosphere_keywords)"

fun first_occurrences :: "'a list \<Rightarrow> 'a list" where
  "first_occurrences [] = []"
| "first_occurrences (x # xs) = x # filter (\<lambda>y. y \<noteq> x) (first_occurrences xs)"

definition in_rule_order :: "jsstring list \<Rightarrow> bool" where
  "in_rule_order tags = (tags = filter (\<lambda>t. t \<in> set tags) (map snd atmosphere_keywords))"

text \<open>The step of the extraction on a matched tag.\<close>

definition add_tag :: "jsstring \<Rightarrow> jsstring list \<Rightarrow> jsstring list" where
  "add_tag tag found = (if length found < 4 then set_add found tag else found)"

text \<open>
  Two reviews: the text of the first is U+30C7 U+30FC U+30C8 (an alternative of rule 4 of
  the list, counted from 0), the text of the second is U+591C U+666F (an alternative of
  rule 0).
\<close>

definition date_review :: review where
  "date_review = \<lparr>review_text = Some [12487, 12540, 12488]\<rparr>"

definition night_view_review :: review where
  "night_view_review = \<lparr>review_text = Some [22812, 26223]\<rparr>"

text \<open>
  A clock that stands still; a result of the Places API, a user location and a distance
  function for the examples; and a clock that reads Tuesday 13:59 first and Tuesday
  14:00 from then on.
\<close>

definition frozen :: "date \<Rightarrow> clock" where
  "frozen now = (\<lambda>_. now)"

definition sample_location :: location where
  "sample_location = \<lparr>loc_lat = 0, loc_lng = 0\<rparr>"

definition fixed_distance :: calculateDistance where
  "fixed_distance lat1 lng1 lat2 lng2 = 100"

definition sample_place :: place_result where
  "sample_place =
     \<lparr>api_place_id = ascii ''p1'', api_name = ascii ''Cafe'', api_rating = Some 4.5,
      api_user_ratings_total = Some 600, api_price_level = Some 2,
      api_opening_hours = Some (Returns (Some True)), api_lat = 0, api_lng = 0\<rparr>"

definition ticking_clock :: clock where
  "ticking_clock n =
     (if n = 0 then \<lparr>getDay = 2, getHours = 13, getMinutes = 59\<rparr>
      else \<lparr>getDay = 2, getHours = 14, getMinutes = 0\<rparr>)"

section \<open>Properties of the numbers\<close>

lemma bit_length_bound: "n < 2 ^ k \<Longrightarrow> bit_length n \<le> k"
proof (induction k arbitrary: n)
  case 0
  then show ?case
    by (simp add: bit_length.simps)
next
  case (Suc k)
  show ?case
  proof (cases "n = 0")
    case True
    then show ?thesis
      by (simp add: bit_length.simps)
  next
    case False
    from Suc.prems have "n div 2 < 2 ^ k"
      by simp
    then have "bit_length (n div 2) \<le> k"
      by (rule Suc.IH)
    with False show ?thesis
      by (subst bit_length.simps) simp
  qed
qed

text \<open>An integer of at most 53 bits is its own Number.\<close>

lemma round_to_double_small: "n < 2 ^ 53 \<Longrightarrow> round_to_double n = n"
  by (simp add: round_to_double_def bit_length_bound)

lemma to_Number_small:
  assumes "\<bar>i\<bar> < 2 ^ 53"
  shows "to_Number i = Finite i"
proof -
  from assms have small: "nat \<bar>i\<bar> < 2 ^ 53"
    by (simp add: nat_less_iff)
  have "(2::nat) ^ 53 < 2 ^ 1024"
    by (rule power_strict_increasing) simp_all
  with small have "\<not> nat \<bar>i\<bar> \<ge> 2 ^ 1024"
    by simp
  with small show ?thesis
    by (simp add: to_Number_def round_to_double_small Let_def)
qed


section \<open>Properties of the strings\<close>

text \<open>\<open>str_includes\<close> is the contiguous-sublist relation of the library.\<close>

lemma str_includes_sublist: "str_includes t kw \<longleftrightarrow> sublist kw t"
  by (induction t) (auto simp: sublist_Cons_right)

section \<open>Properties of the open-now decision\<close>

lemma lazy_or_string:
  "lazy_or (value_includes (JString s) a) (value_includes (JString s) b)
     = Inr (str_includes s a \<or> str_includes s b)"
  by (simp add: lazy_or_def value_includes_def)

lemma isCurrentlyOpen_entry:
  "days \<noteq> [] \<Longrightarrow>
     isCurrentlyOpen (Some days) clk
       = (entry_decision (array_get days (today_index (clk 0))) (minute_of_day (clk 0)),
          \<lambda>n. clk (Suc n))"
  by (simp add: isCurrentlyOpen_def entry_decision_def new_Date_def Let_def today_index_def
      minute_of_day_def)

lemma array_get_truthy: "truthy (array_get days i) \<Longrightarrow> days \<noteq> []"
  by (auto simp: array_get_def truthy_def)

lemma entry_decision_falsy: "\<not> truthy v \<Longrightarrow> entry_decision v t = Inr None"
  by (simp add: entry_decision_def)

lemma entry_decision_closed:
  "has_closed_marker s \<Longrightarrow> entry_decision (JString s) t = Inr (Some False)"
  by (auto simp: entry_decision_def truthy_def lazy_or_string has_closed_marker_def)

lemma entry_decision_open24:
  "\<not> has_closed_marker s \<Longrightarrow> has_open24_marker s
     \<Longrightarrow> entry_decision (JString s) t = Inr (Some True)"
  by (auto simp: entry_decision_def truthy_def lazy_or_string has_closed_marker_def
      has_open24_marker_def)

lemma entry_decision_no_pattern:
  "\<not> has_closed_marker s \<Longrightarrow> \<not> has_open24_marker s \<Longrightarrow> timeRangeMatch s = None
     \<Longrightarrow> entry_decision (JString s) t = Inr None"
  by (simp add: entry_decision_def lazy_or_string has_closed_marker_def
      has_open24_marker_def value_match_def)

lemma entry_decision_range:
  assumes "\<not> has_closed_marker s" and "\<not> has_open24_marker s"
    and "timeRangeMatch s = Some (g1, g2, g3, g4)"
    and "parseInt g1 = Some oh" and "parseInt g2 = Some om"
    and "parseInt g3 = Some ch" and "parseInt g4 = Some cm"
  shows "entry_decision (JString s) t
           = Inr (Some (range_verdict (oh * 60 + om) (ch * 60 + cm) t))"
proof -
  from assms(3) have "s \<noteq> []"
    by auto
  then show ?thesis
    using assms
    by (simp add: entry_decision_def truthy_def lazy_or_string has_closed_marker_def
        has_open24_marker_def value_match_def range_verdict_def Let_def)
qed

text \<open>The decision throws exactly on the entries of \<open>throws_on\<close>.\<close>

lemma entry_decision_string: "entry_decision (JString s) t \<noteq> Inl TypeError"
  by (simp add: entry_decision_def lazy_or_string value_match_def Let_def
      split: bool.splits option.splits prod.splits)

lemma entry_decision_throws: "entry_decision v t = Inl TypeError \<longleftrightarrow> throws_on v"
proof (cases v)
  case (JString s)
  then show ?thesis
    by (simp add: entry_decision_string throws_on_def)
next
  case (JArray vs)
  then show ?thesis
    by (auto simp: entry_decision_def truthy_def value_includes_def lazy_or_def value_match_def
        throws_on_def all_markers_def list_all_iff list_ex_iff split: bool.splits)
qed (simp_all add: entry_decision_def truthy_def value_includes_def lazy_or_def throws_on_def)

lemma isCurrentlyOpen_range:
  assumes "array_get days (today_index (clk 0)) = JString todayText"
    and "\<not> has_closed_marker todayText" and "\<not> has_open24_marker todayText"
    and "timeRangeMatch todayText = Some (g1, g2, g3, g4)"
    and "parseInt g1 = Some oh" and "parseInt g2 = Some om"
    and "parseInt g3 = Some ch" and "parseInt g4 = Some cm"
  shows "fst (isCurrentlyOpen (Some days) clk)
           = Inr (Some (range_verdict (oh * 60 + om) (ch * 60 + cm) (minute_of_day (clk 0))))"
proof -
  from assms(4) have "todayText \<noteq> []"
    by auto
  with assms(1) have "days \<noteq> []"
    by (intro array_get_truthy [of days "today_index (clk 0)"]) (simp add: truthy_def)
  then show ?thesis
    using assms by (simp add: isCurrentlyOpen_entry entry_decision_range)
qed

lemma isCurrentlyOpen_unknown:
  "fst (isCurrentlyOpen None clk) = Inr None"
  "fst (isCurrentlyOpen (Some []) clk) = Inr None"
  "\<not> truthy (array_get days (today_index (clk 0)))
     \<Longrightarrow> fst (isCurrentlyOpen (Some days) clk) = Inr None"
  "array_get days (today_index (clk 0)) = JString todayText \<Longrightarrow> \<not> has_closed_marker todayText
     \<Longrightarrow> \<not> has_open24_marker todayText \<Longrightarrow> timeRangeMatch todayText = None
     \<Longrightarrow> fst (isCurrentlyOpen (Some days) clk) = Inr None"
proof -
  show "fst (isCurrentlyOpen None clk) = Inr None"
    by (simp add: isCurrentlyOpen_def)
  show empty: "fst (isCurrentlyOpen (Some []) clk) = Inr None"
    by (simp add: isCurrentlyOpen_def)
  show "fst (isCurrentlyOpen (Some days) clk) = Inr None"
    if "\<not> truthy (array_get days (today_index (clk 0)))"
    using that empty by (cases "days = []") (simp_all add: isCurrentlyOpen_entry entry_decision_falsy)
  show "fst (isCurrentlyOpen (Some days) clk) = Inr None"
    if "array_get days (today_index (clk 0)) = JString todayText"
      and "\<not> has_closed_marker todayText" and "\<not> has_open24_marker todayText"
      and "timeRangeMatch todayText = None"
    using that empty
    by (cases "days = []") (simp_all add: isCurrentlyOpen_entry entry_decision_no_pattern)
qed

lemma has_marker_nonempty:
  "has_closed_marker todayText \<Longrightarrow> todayText \<noteq> []"
  "has_open24_marker todayText \<Longrightarrow> todayText \<noteq> []"
  by (auto simp: has_closed_marker_def has_open24_marker_def)

lemma isCurrentlyOpen_closed_marker:
  assumes "array_get days (today_index (clk 0)) = JString todayText"
    and "has_closed_marker todayText"
  shows "fst (isCurrentlyOpen (Some days) clk) = Inr (Some False)"
proof -
  from assms(2) have "todayText \<noteq> []"
    by (rule has_marker_nonempty)
  with assms(1) have "days \<noteq> []"
    by (intro array_get_truthy [of days "today_index (clk 0)"]) (simp add: truthy_def)
  then show ?thesis
    using assms by (simp add: isCurrentlyOpen_entry entry_decision_closed)
qed

lemma isCurrentlyOpen_open24_marker:
  assumes "array_get days (today_index (clk 0)) = JString todayText"
    and "\<not> has_closed_marker todayText" and "has_open24_marker todayText"
  shows "fst (isCurrentlyOpen (Some days) clk) = Inr (Some True)"
proof -
  from assms(3) have "todayText \<noteq> []"
    by (rule has_marker_nonempty)
  with assms(1) have "days \<noteq> []"
    by (intro array_get_truthy [of days "today_index (clk 0)"]) (simp add: truthy_def)
  then show ?thesis
    using assms by (simp add: isCurrentlyOpen_entry entry_decision_open24)
qed

lemma text_or_absent_entry: "list_all text_or_absent days \<Longrightarrow> text_or_absent (array_get days i)"
  by (simp add: array_get_def text_or_absent_def list_all_length)

lemma text_or_absent_no_throw: "text_or_absent v \<Longrightarrow> \<not> throws_on v"
  by (cases v) (simp_all add: text_or_absent_def throws_on_def)

lemma isCurrentlyOpen_same_entry:
  assumes "days \<noteq> []" and "days' \<noteq> []"
    and "array_get days (if getDay (clk 0) = 0 then 6 else getDay (clk 0) - 1)
          = array_get days' (if getDay (clk 0) = 0 then 6 else getDay (clk 0) - 1)"
  shows "isCurrentlyOpen (Some days) clk = isCurrentlyOpen (Some days') clk"
proof -
  from assms(3) have "array_get days (today_index (clk 0)) = array_get days' (today_index (clk 0))"
    by (simp only: today_index_def)
  then show ?thesis
    using isCurrentlyOpen_entry [OF assms(1), of clk] isCurrentlyOpen_entry [OF assms(2), of clk]
    by simp
qed

lemma isCurrentlyOpen_throws:
  "fst (isCurrentlyOpen (Some days) clk) = Inl TypeError
     \<longleftrightarrow> days \<noteq> [] \<and> throws_on (array_get days (today_index (clk 0)))"
proof (cases "days = []")
  case True
  then show ?thesis
    by (simp add: isCurrentlyOpen_def)
next
  case False
  then show ?thesis
    by (simp add: isCurrentlyOpen_entry entry_decision_throws)
qed

subsection \<open>The captures are numbers\<close>

lemma re_digits_1_2_capture: "(g, r) \<in> set (re_digits_1_2 s) \<Longrightarrow> capture_ok g"
  by (induction s rule: re_digits_1_2.induct) (auto simp: capture_ok_def split: if_splits)

lemma re_digits_2_capture: "(g, r) \<in> set (re_digits_2 s) \<Longrightarrow> capture_ok g"
  by (induction s rule: re_digits_2.induct) (auto simp: capture_ok_def split: if_splits)

lemma timeRange_at_capture:
  "(g1, g2, g3, g4) \<in> set (timeRange_at s)
     \<Longrightarrow> capture_ok g1 \<and> capture_ok g2 \<and> capture_ok g3 \<and> capture_ok g4"
  by (auto simp: timeRange_at_def set_list_bind split: if_splits
      dest: re_digits_1_2_capture re_digits_2_capture)

lemma timeRangeMatch_capture:
  "timeRangeMatch s = Some (g1, g2, g3, g4)
     \<Longrightarrow> capture_ok g1 \<and> capture_ok g2 \<and> capture_ok g3 \<and> capture_ok g4"
proof (induction s)
  case Nil
  then show ?case by simp
next
  case (Cons c cs)
  show ?case
  proof (cases "timeRange_at (c # cs)")
    case Nil
    with Cons show ?thesis by simp
  next
    case (Cons m ms)
    with Cons.prems have "(g1, g2, g3, g4) \<in> set (timeRange_at (c # cs))" by simp
    then show ?thesis by (rule timeRange_at_capture)
  qed
qed

lemma parseInt_capture: "capture_ok g \<Longrightarrow> \<exists>n. parseInt g = Some n \<and> 0 \<le> n \<and> n \<le> 99"
proof -
  assume ok: "capture_ok g"
  then consider a where "g = [a]" "isDigit a" | a b where "g = [a, b]" "isDigit a" "isDigit b"
    by (cases g; cases "tl g"; cases "tl (tl g)") (auto simp: capture_ok_def)
  then show ?thesis
  proof cases
    case 1
    then show ?thesis
      by (auto simp: parseInt_def isDigit_def isStrWhiteSpaceChar_def radixDigit_def)
  next
    case 2
    then show ?thesis
      by (auto simp: parseInt_def isDigit_def isStrWhiteSpaceChar_def radixDigit_def)
  qed
qed

lemma timeRangeMatch_parseInt:
  assumes "timeRangeMatch todayText = Some (g1, g2, g3, g4)"
  shows "\<exists>oh om ch cm. parseInt g1 = Some oh \<and> parseInt g2 = Some om
           \<and> parseInt g3 = Some ch \<and> parseInt g4 = Some cm"
  using timeRangeMatch_capture [OF assms] by (meson parseInt_capture)

subsection \<open>The examples\<close>

lemma overnight_match: "timeRangeMatch overnight_text = Some ([49, 56], [48, 48], [50], [48, 48])"
  by (simp add: overnight_text_def timeRange_at_def re_opt_char_def isDigit_def)

lemma standard_match: "timeRangeMatch standard_text = Some ([55], [48, 48], [50, 48], [48, 48])"
  by (simp add: standard_text_def timeRange_at_def re_opt_char_def isDigit_def)

text \<open>
  The expression on a text with the name of the day and two ranges (the first range is
  the match), on a text with a hyphen and no minute signs, on a text with three digits
  before the hour sign (the match starts at the second digit), and on a text with a
  one-digit minute (no match).
\<close>

lemma timeRangeMatch_examples:
  "timeRangeMatch [26376, 26332, 26085, 58, 32, 49, 49, 26178, 51, 48, 20998, 65374, 49, 52,
      26178, 48, 48, 20998, 44, 32, 49, 55, 26178, 48, 48, 20998, 65374, 50, 50, 26178, 48, 48,
      20998] = Some ([49, 49], [51, 48], [49, 52], [48, 48])"
  "timeRangeMatch [57, 26178, 48, 48, 45, 49, 55, 26178, 48, 48]
     = Some ([57], [48, 48], [49, 55], [48, 48])"
  "timeRangeMatch [49, 50, 51, 26178, 48, 48, 20998, 126, 53, 26178, 48, 48, 20998]
     = Some ([50, 51], [48, 48], [53], [48, 48])"
  "timeRangeMatch [55, 26178, 53, 20998, 12316, 50, 48, 26178, 48, 48, 20998] = None"
  by (simp_all add: timeRange_at_def re_opt_char_def isDigit_def)

lemma parseInt_values:
  "parseInt [49, 56] = Some 18" "parseInt [48, 48] = Some 0" "parseInt [50] = Some 2"
  "parseInt [55] = Some 7" "parseInt [50, 48] = Some 20"
  by (simp_all add: parseInt_def isStrWhiteSpaceChar_def radixDigit_def)

lemma no_markers:
  "\<not> has_closed_marker overnight_text" "\<not> has_open24_marker overnight_text"
  "\<not> has_closed_marker standard_text" "\<not> has_open24_marker standard_text"
  by (simp_all add: has_closed_marker_def has_open24_marker_def overnight_text_def standard_text_def)

lemma overnight_at:
  "fst (isCurrentlyOpen (Some (replicate 7 (JString overnight_text)))
          (frozen \<lparr>getDay = 5, getHours = h, getMinutes = m\<rparr>))
     = Inr (Some (range_verdict 1080 120 (int h * 60 + int m)))"
  using isCurrentlyOpen_range [of "replicate 7 (JString overnight_text)"
      "frozen \<lparr>getDay = 5, getHours = h, getMinutes = m\<rparr>" overnight_text, OF _ no_markers(1,2) overnight_match parseInt_values(1,2,3,2)]
  by (simp add: array_get_def today_index_def minute_of_day_def frozen_def)

lemma standard_at:
  "fst (isCurrentlyOpen (Some (replicate 7 (JString standard_text)))
          (frozen \<lparr>getDay = 5, getHours = h, getMinutes = m\<rparr>))
     = Inr (Some (range_verdict 420 1200 (int h * 60 + int m)))"
  using isCurrentlyOpen_range [of "replicate 7 (JString standard_text)"
      "frozen \<lparr>getDay = 5, getHours = h, getMinutes = m\<rparr>" standard_text,
      OF _ no_markers(3,4) standard_match parseInt_values(4,2,5,2)]
  by (simp add: array_get_def today_index_def minute_of_day_def frozen_def)

lemma week_closed_on_entry:
  "i < 7 \<Longrightarrow> array_get (week_closed_on k) i
     = JString (if k = i then closed_text else open24_text)"
  by (simp add: array_get_def week_closed_on_def nth_list_update)

lemma marker_texts:
  "str_includes closed_text [23450, 20241, 26085]"
  "\<not> str_includes open24_text [23450, 20241, 26085]"
  "\<not> str_includes open24_text [20241, 26989, 26085]"
  "str_includes open24_text [50, 52, 26178, 38291, 21942, 26989]"
  "closed_text \<noteq> []" "open24_text \<noteq> []"
  by (simp_all add: closed_text_def open24_text_def)

lemma week_closed_on_verdict:
  assumes "d \<le> 6" and "k < 7"
  shows "fst (isCurrentlyOpen (Some (week_closed_on k))
            (frozen \<lparr>getDay = d, getHours = h, getMinutes = m\<rparr>))
         = Inr (Some (k \<noteq> (if d = 0 then 6 else d - 1)))"
proof -
  let ?clk = "frozen \<lparr>getDay = d, getHours = h, getMinutes = m\<rparr>"
  let ?i = "if d = 0 then 6 else d - 1"
  have ne: "week_closed_on k \<noteq> []"
    by (simp add: week_closed_on_def)
  have closed: "has_closed_marker closed_text"
    and open24: "\<not> has_closed_marker open24_text" "has_open24_marker open24_text"
    by (simp_all add: has_closed_marker_def has_open24_marker_def marker_texts)
  have idx: "today_index (?clk 0) = ?i"
    by (simp add: today_index_def frozen_def)
  from assms(1) have "?i < 7"
    by (cases "d = 0") simp_all
  then have entry: "array_get (week_closed_on k) ?i
      = JString (if k = ?i then closed_text else open24_text)"
    by (rule week_closed_on_entry)
  have "fst (isCurrentlyOpen (Some (week_closed_on k)) ?clk)
      = entry_decision (JString (if k = ?i then closed_text else open24_text))
          (minute_of_day (?clk 0))"
    by (simp only: isCurrentlyOpen_entry [OF ne] idx entry fst_conv)
  also have "\<dots> = Inr (Some (k \<noteq> ?i))"
  proof (cases "k = ?i")
    case True
    then show ?thesis
      by (simp add: entry_decision_closed [OF closed])
  next
    case False
    then show ?thesis
      by (simp add: entry_decision_open24 [OF open24])
  qed
  finally show ?thesis .
qed

subsection \<open>The claims\<close>

text \<open>
  C1: when today's text has no marker and the time-range expression matches it, with
  captures that read as the hours and minutes \<open>oh\<close>, \<open>om\<close>, \<open>ch\<close>, \<open>cm\<close> (every match has
  such readings), the decision at minute \<open>t\<close> of the day is the range verdict for
  \<open>open_m = oh * 60 + om\<close> and \<open>close_m = ch * 60 + cm\<close>: with \<open>close_m \<ge> open_m\<close>, open
  iff \<open>open_m \<le> t \<le> close_m\<close>; with \<open>close_m < open_m\<close>, open iff \<open>t \<le> close_m\<close> when
  \<open>t < open_m\<close>, and iff \<open>open_m \<le> t \<le> close_m + 1440\<close> otherwise. For 18:00 to 2:00 the
  decision is open at 23:00 and 01:30 and closed at 10:00 and 03:00; for 7:00 to 20:00 it
  is open at 07:00 and 20:00 and closed at 06:59 and 20:01.
\<close>

theorem isCurrentlyOpen_time_range:
  "(\<forall>days clk todayText g1 g2 g3 g4 oh om ch cm.
      array_get days (today_index (clk 0)) = JString todayText
      \<and> \<not> has_closed_marker todayText \<and> \<not> has_open24_marker todayText
      \<and> timeRangeMatch todayText = Some (g1, g2, g3, g4)
      \<and> parseInt g1 = Some oh \<and> parseInt g2 = Some om
      \<and> parseInt g3 = Some ch \<and> parseInt g4 = Some cm
      \<longrightarrow> fst (isCurrentlyOpen (Some days) clk)
            = Inr (Some (range_verdict (oh * 60 + om) (ch * 60 + cm) (minute_of_day (clk 0)))))
   \<and> (\<forall>todayText g1 g2 g3 g4.
        timeRangeMatch todayText = Some (g1, g2, g3, g4)
        \<longrightarrow> (\<exists>oh om ch cm. parseInt g1 = Some oh \<and> parseInt g2 = Some om
                \<and> parseInt g3 = Some ch \<and> parseInt g4 = Some cm))
   \<and> fst (isCurrentlyOpen (Some (replicate 7 (JString overnight_text)))
            (frozen \<lparr>getDay = 5, getHours = 23, getMinutes = 0\<rparr>)) = Inr (Some True)
   \<and> fst (isCurrentlyOpen (Some (replicate 7 (JString overnight_text)))
            (frozen \<lparr>getDay = 5, getHours = 1, getMinutes = 30\<rparr>)) = Inr (Some True)
   \<and> fst (isCurrentlyOpen (Some (replicate 7 (JString overnight_text)))
            (frozen \<lparr>getDay = 5, getHours = 10, getMinutes = 0\<rparr>)) = Inr (Some False)
   \<and> fst (isCurrentlyOpen (Some (replicate 7 (JString overnight_text)))
            (frozen \<lparr>getDay = 5, getHours = 3, getMinutes = 0\<rparr>)) = Inr (Some False)
   \<and> fst (isCurrentlyOpen (Some (replicate 7 (JString standard_text)))
            (frozen \<lparr>getDay = 5, getHours = 7, getMinutes = 0\<rparr>)) = Inr (Some True)
   \<and> fst (isCurrentlyOpen (Some (replicate 7 (JString standard_text)))
            (frozen \<lparr>getDay = 5, getHours = 20, getMinutes = 0\<rparr>)) = Inr (Some True)
   \<and> fst (isCurrentlyOpen (Some (replicate 7 (JString standard_text)))
            (frozen \<lparr>getDay = 5, getHours = 6, getMinutes = 59\<rparr>)) = Inr (Some False)
   \<and> fst (isCurrentlyOpen (Some (replicate 7 (JString standard_text)))
            (frozen \<lparr>getDay = 5, getHours = 20, getMinutes = 1\<rparr>)) = Inr (Some False)"
proof -
  have general: "\<forall>days clk todayText g1 g2 g3 g4 oh om ch cm.
      array_get days (today_index (clk 0)) = JString todayText
      \<and> \<not> has_closed_marker todayText \<and> \<not> has_open24_marker todayText
      \<and> timeRangeMatch todayText = Some (g1, g2, g3, g4)
      \<and> parseInt g1 = Some oh \<and> parseInt g2 = Some om
      \<and> parseInt g3 = Some ch \<and> parseInt g4 = Some cm
      \<longrightarrow> fst (isCurrentlyOpen (Some days) clk)
            = Inr (Some (range_verdict (oh * 60 + om) (ch * 60 + cm) (minute_of_day (clk 0))))"
    by (blast intro: isCurrentlyOpen_range)
  have parse: "\<forall>todayText g1 g2 g3 g4.
        timeRangeMatch todayText = Some (g1, g2, g3, g4)
        \<longrightarrow> (\<exists>oh om ch cm. parseInt g1 = Some oh \<and> parseInt g2 = Some om
                \<and> parseInt g3 = Some ch \<and> parseInt g4 = Some cm)"
    by (blast dest: timeRangeMatch_parseInt)
  show ?thesis
    by (intro conjI general parse) (simp_all add: overnight_at standard_at range_verdict_def)
qed

theorem isCurrentlyOpen_time_range_witness:
  "fst (isCurrentlyOpen (Some [JNull, JUndefined, JString overnight_text])
          (frozen \<lparr>getDay = 3, getHours = 0, getMinutes = 45\<rparr>)) = Inr (Some True)
   \<and> (\<exists>oh om ch cm. parseInt [49, 56] = Some oh \<and> parseInt [48, 48] = Some om
          \<and> parseInt [50] = Some ch \<and> parseInt [48, 48] = Some cm)"
proof -
  note step = isCurrentlyOpen_time_range [THEN conjunct1, rule_format]
  note inst = step [where todayText = overnight_text and ?g1.0 = "[49, 56]" and ?g2.0 = "[48, 48]"
      and ?g3.0 = "[50]" and ?g4.0 = "[48, 48]"]
  note digits = isCurrentlyOpen_time_range [THEN conjunct2, THEN conjunct1, rule_format]
  have entry: "array_get [JNull, JUndefined, JString overnight_text]
                 (today_index (frozen \<lparr>getDay = 3, getHours = 0, getMinutes = 45\<rparr> 0))
               = JString overnight_text"
    by (simp add: array_get_def today_index_def frozen_def)
  have "fst (isCurrentlyOpen (Some [JNull, JUndefined, JString overnight_text])
          (frozen \<lparr>getDay = 3, getHours = 0, getMinutes = 45\<rparr>))
        = Inr (Some (range_verdict (18 * 60 + 0) (2 * 60 + 0)
            (minute_of_day (frozen \<lparr>getDay = 3, getHours = 0, getMinutes = 45\<rparr> 0))))"
    using entry no_markers(1,2) overnight_match parseInt_values(1,2,3)
    by (intro inst) simp
  moreover have "\<exists>oh om ch cm. parseInt [49, 56] = Some oh \<and> parseInt [48, 48] = Some om
          \<and> parseInt [50] = Some ch \<and> parseInt [48, 48] = Some cm"
    using overnight_match by (rule digits)
  ultimately show ?thesis
    by (simp add: range_verdict_def minute_of_day_def frozen_def)
qed

text \<open>
  C5: the decision reads the table only at index 6 when the platform day is 0 (Sunday)
  and at index \<open>day - 1\<close> otherwise: two non-empty tables that agree there get the same
  decision, and in a week that is open 24 hours but for one closed day of index \<open>k\<close>,
  the decision on platform day \<open>d\<close> is closed exactly when \<open>k\<close> is that index.
\<close>

theorem isCurrentlyOpen_weekday_index:
  "(\<forall>days days' clk.
      days \<noteq> [] \<and> days' \<noteq> []
      \<and> array_get days (if getDay (clk 0) = 0 then 6 else getDay (clk 0) - 1)
          = array_get days' (if getDay (clk 0) = 0 then 6 else getDay (clk 0) - 1)
      \<longrightarrow> fst (isCurrentlyOpen (Some days) clk) = fst (isCurrentlyOpen (Some days') clk))
   \<and> (\<forall>d k h m.
        d \<le> 6 \<and> k < 7
        \<longrightarrow> fst (isCurrentlyOpen (Some (week_closed_on k))
                   (frozen \<lparr>getDay = d, getHours = h, getMinutes = m\<rparr>))
              = Inr (Some (k \<noteq> (if d = 0 then 6 else d - 1))))"
proof (intro conjI allI impI)
  fix days days' :: "js_value list" and clk :: clock
  assume "days \<noteq> [] \<and> days' \<noteq> []
      \<and> array_get days (if getDay (clk 0) = 0 then 6 else getDay (clk 0) - 1)
          = array_get days' (if getDay (clk 0) = 0 then 6 else getDay (clk 0) - 1)"
  then show "fst (isCurrentlyOpen (Some days) clk) = fst (isCurrentlyOpen (Some days') clk)"
    using isCurrentlyOpen_same_entry [of days days' clk] by simp
next
  fix d k h m :: nat
  assume "d \<le> 6 \<and> k < 7"
  then show "fst (isCurrentlyOpen (Some (week_closed_on k))
                   (frozen \<lparr>getDay = d, getHours = h, getMinutes = m\<rparr>))
              = Inr (Some (k \<noteq> (if d = 0 then 6 else d - 1)))"
    using week_closed_on_verdict [of d k h m] by simp
qed

theorem isCurrentlyOpen_weekday_index_witness:
  "fst (isCurrentlyOpen (Some (week_closed_on 6))
          (frozen \<lparr>getDay = 0, getHours = 12, getMinutes = 0\<rparr>)) = Inr (Some False)
   \<and> fst (isCurrentlyOpen (Some (week_closed_on 0))
          (frozen \<lparr>getDay = 0, getHours = 12, getMinutes = 0\<rparr>)) = Inr (Some True)
   \<and> fst (isCurrentlyOpen (Some (week_closed_on 0))
          (frozen \<lparr>getDay = 1, getHours = 12, getMinutes = 0\<rparr>)) = Inr (Some False)
   \<and> fst (isCurrentlyOpen (Some (week_closed_on 1))
          (frozen \<lparr>getDay = 1, getHours = 12, getMinutes = 0\<rparr>)) = Inr (Some True)
   \<and> fst (isCurrentlyOpen (Some [JString closed_text])
          (frozen \<lparr>getDay = 1, getHours = 12, getMinutes = 0\<rparr>))
       = fst (isCurrentlyOpen (Some (week_closed_on 0))
          (frozen \<lparr>getDay = 1, getHours = 12, getMinutes = 0\<rparr>))"
proof -
  note same = isCurrentlyOpen_weekday_index [THEN conjunct1, rule_format]
  note probe = isCurrentlyOpen_weekday_index [THEN conjunct2, rule_format]
  have entry: "array_get [JString closed_text] 0 = array_get (week_closed_on 0) 0"
    by (simp add: array_get_def week_closed_on_def)
  have ne: "[JString closed_text] \<noteq> []" "week_closed_on 0 \<noteq> []"
    by (simp_all add: week_closed_on_def)
  have "fst (isCurrentlyOpen (Some [JString closed_text])
          (frozen \<lparr>getDay = 1, getHours = 12, getMinutes = 0\<rparr>))
       = fst (isCurrentlyOpen (Some (week_closed_on 0))
          (frozen \<lparr>getDay = 1, getHours = 12, getMinutes = 0\<rparr>))"
    using entry ne by (intro same) (simp add: frozen_def)
  then show ?thesis
    using probe [of 0 6 12 0] probe [of 0 0 12 0] probe [of 1 0 12 0] probe [of 1 1 12 0]
    by simp
qed

text \<open>
  C8, as the code has it: for every table that is absent or holds strings and absent
  entries only (an empty or ill-sized table and any day text included), and at every
  instant, \<open>isCurrentlyOpen\<close> does not throw and returns one of open, closed and unknown.
  It throws, a \<^verbatim>\<open>TypeError\<close>, exactly when today's entry is a truthy value that is not a
  string (but for an array that holds a marker). It returns unknown for an absent table,
  for an empty one, when today's entry is absent (or another falsy value), and when
  today's text has no marker and no time range; closed when the text has a closed-day
  marker, and open when it has no such marker but a 24-hours marker.
\<close>

theorem isCurrentlyOpen_never_fails:
  "(list_all text_or_absent days \<longrightarrow> (\<exists>v. fst (isCurrentlyOpen (Some days) clk) = Inr v))
   \<and> (fst (isCurrentlyOpen (Some days) clk) = Inl TypeError
        \<longleftrightarrow> days \<noteq> [] \<and> throws_on (array_get days (today_index (clk 0))))
   \<and> fst (isCurrentlyOpen None clk) = Inr None
   \<and> fst (isCurrentlyOpen (Some []) clk) = Inr None
   \<and> (\<not> truthy (array_get days (today_index (clk 0)))
        \<longrightarrow> fst (isCurrentlyOpen (Some days) clk) = Inr None)
   \<and> (array_get days (today_index (clk 0)) = JString todayText
        \<and> \<not> has_closed_marker todayText \<and> \<not> has_open24_marker todayText
        \<and> timeRangeMatch todayText = None
        \<longrightarrow> fst (isCurrentlyOpen (Some days) clk) = Inr None)
   \<and> (array_get days (today_index (clk 0)) = JString todayText
        \<and> has_closed_marker todayText
        \<longrightarrow> fst (isCurrentlyOpen (Some days) clk) = Inr (Some False))
   \<and> (array_get days (today_index (clk 0)) = JString todayText
        \<and> \<not> has_closed_marker todayText \<and> has_open24_marker todayText
        \<longrightarrow> fst (isCurrentlyOpen (Some days) clk) = Inr (Some True))"
proof -
  have returns: "\<exists>v. fst (isCurrentlyOpen (Some days) clk) = Inr v"
    if texts: "list_all text_or_absent days"
  proof (cases "fst (isCurrentlyOpen (Some days) clk)")
    case (Inl e)
    then have "fst (isCurrentlyOpen (Some days) clk) = Inl TypeError"
      by (cases e) simp
    then have "throws_on (array_get days (today_index (clk 0)))"
      by (simp add: isCurrentlyOpen_throws)
    moreover have "\<not> throws_on (array_get days (today_index (clk 0)))"
      using texts by (intro text_or_absent_no_throw text_or_absent_entry)
    ultimately show ?thesis by simp
  next
    case (Inr v)
    then show ?thesis by simp
  qed
  show ?thesis
    using returns
    by (simp add: isCurrentlyOpen_throws isCurrentlyOpen_unknown isCurrentlyOpen_closed_marker
        isCurrentlyOpen_open24_marker)
qed

theorem isCurrentlyOpen_never_fails_witness:
  "fst (isCurrentlyOpen (Some [JString standard_text, JString standard_text])
          (frozen \<lparr>getDay = 4, getHours = 12, getMinutes = 0\<rparr>)) = Inr None
   \<and> fst (isCurrentlyOpen (Some (replicate 7 (JString unparsable_text)))
          (frozen \<lparr>getDay = 4, getHours = 12, getMinutes = 0\<rparr>)) = Inr None
   \<and> (\<exists>v. fst (isCurrentlyOpen (Some [JNull, JString unparsable_text, JUndefined])
                 (frozen \<lparr>getDay = 4, getHours = 12, getMinutes = 0\<rparr>)) = Inr v)"
proof -
  note returns = isCurrentlyOpen_never_fails [THEN conjunct1, rule_format]
  note absent_case = isCurrentlyOpen_never_fails [THEN conjunct2, THEN conjunct2,
      THEN conjunct2, THEN conjunct2, THEN conjunct1, rule_format]
  note no_pattern_case = isCurrentlyOpen_never_fails [THEN conjunct2, THEN conjunct2,
      THEN conjunct2, THEN conjunct2, THEN conjunct2, THEN conjunct1, rule_format]
  have absent: "\<not> truthy (array_get [JString standard_text, JString standard_text]
      (today_index (frozen \<lparr>getDay = 4, getHours = 12, getMinutes = 0\<rparr> 0)))"
    by (simp add: array_get_def today_index_def frozen_def truthy_def)
  have entry: "array_get (replicate 7 (JString unparsable_text))
      (today_index (frozen \<lparr>getDay = 4, getHours = 12, getMinutes = 0\<rparr> 0))
      = JString unparsable_text"
    by (simp add: array_get_def today_index_def frozen_def)
  have plain: "\<not> has_closed_marker unparsable_text" "\<not> has_open24_marker unparsable_text"
      "timeRangeMatch unparsable_text = None"
    by (simp_all add: has_closed_marker_def has_open24_marker_def unparsable_text_def
        timeRange_at_def re_opt_char_def isDigit_def)
  have texts: "list_all text_or_absent [JNull, JString unparsable_text, JUndefined]"
    by (simp add: text_or_absent_def)
  have "fst (isCurrentlyOpen (Some [JString standard_text, JString standard_text])
          (frozen \<lparr>getDay = 4, getHours = 12, getMinutes = 0\<rparr>)) = Inr None"
    using absent by (rule absent_case)
  moreover have "fst (isCurrentlyOpen (Some (replicate 7 (JString unparsable_text)))
          (frozen \<lparr>getDay = 4, getHours = 12, getMinutes = 0\<rparr>)) = Inr None"
    by (intro no_pattern_case [where todayText = unparsable_text]) (simp add: entry plain)
  moreover have "\<exists>v. fst (isCurrentlyOpen (Some [JNull, JString unparsable_text, JUndefined])
                 (frozen \<lparr>getDay = 4, getHours = 12, getMinutes = 0\<rparr>)) = Inr v"
    using texts by (rule returns)
  ultimately show ?thesis by simp
qed

text \<open>
  C8 as stated fails: on a table whose entry for today is a number, or an object, the
  call \<^verbatim>\<open>todayText.includes\<close> throws a \<^verbatim>\<open>TypeError\<close>.
\<close>

theorem isCurrentlyOpen_throws_counterexample:
  "fst (isCurrentlyOpen (Some (replicate 7 (JNumber 5)))
          (frozen \<lparr>getDay = 4, getHours = 12, getMinutes = 0\<rparr>)) = Inl TypeError
   \<and> fst (isCurrentlyOpen (Some (replicate 7 JObject))
          (frozen \<lparr>getDay = 4, getHours = 12, getMinutes = 0\<rparr>)) = Inl TypeError"
  by (simp add: isCurrentlyOpen_throws array_get_def today_index_def frozen_def throws_on_def)

section \<open>Properties of the review estimate\<close>

lemma count_keyword_eq:
  "count_keyword txt ks n = n + (if list_ex (str_includes txt) ks then 1 else 0)"
  by (induction ks) auto

lemma fold_review_step:
  "fold review_step rs (a, b)
     = (a + length (filter (mentions keywords_crowded) rs),
        b + length (filter (mentions keywords_empty) rs))"
  by (induction rs arbitrary: a b) (auto simp: review_step_def count_keyword_eq mentions_def Let_def)

lemma estimate_eq:
  "estimateCongestionFromReviews (Some rs)
     = (if crowded_count rs > empty_count rs \<and> crowded_count rs \<ge> 2 then Some (ascii ''crowded'')
        else if empty_count rs > crowded_count rs \<and> empty_count rs \<ge> 2 then Some (ascii ''empty'')
        else None)"
  by (auto simp: estimateCongestionFromReviews_def fold_review_step crowded_count_def empty_count_def)

lemma review_examples:
  "mentions keywords_crowded crowded_review" "\<not> mentions keywords_empty crowded_review"
  "\<not> mentions keywords_crowded quiet_review" "mentions keywords_empty quiet_review"
  "\<not> mentions keywords_crowded plain_review" "\<not> mentions keywords_empty plain_review"
  by (simp_all add: mentions_def keywords_crowded_def keywords_empty_def crowded_review_def
      quiet_review_def plain_review_def text_or_empty_def)

text \<open>
  Three crowded reviews in five give crowded; one crowded and one empty review give
  unknown; crowded reviews after the fifth are not read.
\<close>

lemma estimateCongestionFromReviews_examples:
  "estimateCongestionFromReviews
     (Some [crowded_review, plain_review, crowded_review, plain_review, crowded_review])
     = Some (ascii ''crowded'')"
  "estimateCongestionFromReviews (Some [crowded_review, quiet_review]) = None"
  "estimateCongestionFromReviews
     (Some [plain_review, plain_review, plain_review, plain_review, plain_review,
            crowded_review, crowded_review]) = None"
  by (simp_all add: estimate_eq crowded_count_def empty_count_def review_examples)

text \<open>
  C6: \<open>estimateCongestionFromReviews\<close> reads the first five reviews only; a review adds
  at most one to the crowded counter and at most one to the empty counter, so that the
  counters are the crowded count and the empty count; the result is crowded iff the
  crowded count exceeds the empty count and is at least 2, empty iff the empty count
  exceeds the crowded count and is at least 2, and unknown otherwise.
\<close>

theorem estimateCongestionFromReviews_counts:
  "estimateCongestionFromReviews (Some rs) = estimateCongestionFromReviews (Some (take 5 rs))
   \<and> crowded_count rs \<le> 5 \<and> empty_count rs \<le> 5
   \<and> review_step r (a, b)
       = (a + (if mentions keywords_crowded r then 1 else 0),
          b + (if mentions keywords_empty r then 1 else 0))
   \<and> fold review_step (take 5 rs) (0, 0) = (crowded_count rs, empty_count rs)
   \<and> (estimateCongestionFromReviews (Some rs) = Some (ascii ''crowded'')
        \<longleftrightarrow> crowded_count rs > empty_count rs \<and> crowded_count rs \<ge> 2)
   \<and> (estimateCongestionFromReviews (Some rs) = Some (ascii ''empty'')
        \<longleftrightarrow> empty_count rs > crowded_count rs \<and> empty_count rs \<ge> 2)
   \<and> (estimateCongestionFromReviews (Some rs) = None
        \<longleftrightarrow> \<not> (crowded_count rs > empty_count rs \<and> crowded_count rs \<ge> 2)
            \<and> \<not> (empty_count rs > crowded_count rs \<and> empty_count rs \<ge> 2))"
proof -
  have five: "crowded_count rs \<le> 5" "empty_count rs \<le> 5"
    by (auto simp: crowded_count_def empty_count_def intro: order_trans [OF length_filter_le])
  have same: "crowded_count (take 5 rs) = crowded_count rs" "empty_count (take 5 rs) = empty_count rs"
    by (simp_all add: crowded_count_def empty_count_def)
  have ne: "ascii ''crowded'' \<noteq> ascii ''empty''"
    by (simp add: ascii_def)
  have once: "review_step r (a, b)
       = (a + (if mentions keywords_crowded r then 1 else 0),
          b + (if mentions keywords_empty r then 1 else 0))"
    by (simp add: review_step_def count_keyword_eq mentions_def Let_def)
  have counters: "fold review_step (take 5 rs) (0, 0) = (crowded_count rs, empty_count rs)"
    by (simp add: fold_review_step crowded_count_def empty_count_def)
  show ?thesis
    using five ne once counters by (auto simp: estimate_eq same)
qed

section \<open>Properties of the congestion estimator\<close>

lemma estimateCongestion_eq:
  "estimateCongestion place clk =
     (congestion_spec (getHours (clk 0)) (getDay (clk 0))
        (js_or (api_user_ratings_total place) 0) (js_or (api_rating place) 3),
      \<lambda>n. clk (Suc n))"
  by (simp add: estimateCongestion_def congestion_spec_def verdict_spec_def
      time_score_spec_def popularity_score_spec_def new_Date_def Let_def)

lemma congestion_spec_examples:
  "level (congestion_spec 12 6 600 4.5) = ascii ''high''"
  "level (congestion_spec 15 2 10 3.0) = ascii ''empty''"
  by (simp_all add: congestion_spec_def verdict_spec_def time_score_spec_def
      popularity_score_spec_def)

text \<open>
  C2: at every hour \<open>h\<close> and weekday \<open>d\<close> read from the clock, for every rating count \<open>c\<close>
  and rating \<open>r\<close> of the place, the verdict of \<open>estimateCongestion\<close> is the reference
  verdict: time score 3 in the hours 11 to 13 and 18 to 20, 1 in the hours 14 to 17, else
  2, plus 1 on Saturday and Sunday; popularity score by the highest threshold of 500, 100
  and 30 that the count exceeds, plus 1 for a rating of at least 4.3; level high from 6,
  medium from 4, low from 2, else empty, each with its label and colour.
\<close>

theorem estimateCongestion_reference:
  "fst (estimateCongestion (place\<lparr>api_user_ratings_total := Some c, api_rating := Some r\<rparr>) clk)
     = congestion_spec (getHours (clk 0)) (getDay (clk 0)) c r"
  by (simp add: estimateCongestion_eq js_or_def congestion_spec_def popularity_score_spec_def)

text \<open>
  C10: a place whose rating is absent, or 0, is scored as one rated 3.0, so its popularity
  score has no bonus for a rating of at least 4.3; an absent rating count is scored as 0;
  the comparator of the sort stage reads an absent rating as 0.
\<close>

theorem estimateCongestion_absent_rating:
  "estimateCongestion (place\<lparr>api_rating := None\<rparr>) clk
     = estimateCongestion (place\<lparr>api_rating := Some 3.0\<rparr>) clk
   \<and> estimateCongestion (place\<lparr>api_rating := Some 0\<rparr>) clk
     = estimateCongestion (place\<lparr>api_rating := Some 3.0\<rparr>) clk
   \<and> fst (estimateCongestion (place\<lparr>api_rating := None\<rparr>) clk)
     = verdict_spec (time_score_spec (getHours (clk 0)) (getDay (clk 0))
         + (let c = js_or (api_user_ratings_total place) 0
            in if c > 500 then 3 else if c > 100 then 2 else if c > 30 then 1 else 0))
   \<and> estimateCongestion (place\<lparr>api_user_ratings_total := None\<rparr>) clk
     = estimateCongestion (place\<lparr>api_user_ratings_total := Some 0\<rparr>) clk
   \<and> compare_places (a\<lparr>rating := None\<rparr>) b = compare_places (a\<lparr>rating := Some 0\<rparr>) b
   \<and> compare_places a (b\<lparr>rating := None\<rparr>) = compare_places a (b\<lparr>rating := Some 0\<rparr>)"
  by (simp add: estimateCongestion_eq js_or_def congestion_spec_def popularity_score_spec_def
      compare_places_def Let_def)

section \<open>Properties of the search pipeline\<close>

subsection \<open>The sort\<close>

lemma mset_insert_sorted: "mset (insert_sorted cmp x ys) = add_mset x (mset ys)"
  by (induction ys) auto

lemma mset_array_sort: "mset (array_sort cmp xs) = mset xs"
  by (induction xs) (auto simp: array_sort_def mset_insert_sorted)

lemma set_insert_sorted: "set (insert_sorted cmp x ys) = insert x (set ys)"
  by (induction ys) auto

lemma compare_places_le: "compare_places a b \<le> 0 \<longleftrightarrow> ranks_before a b"
  by (auto simp: compare_places_def ranks_before_def rating_key_def count_key_def Let_def)

lemma compare_places_zero:
  "compare_places a b = 0 \<longleftrightarrow> rating_key a = rating_key b \<and> count_key a = count_key b"
  by (auto simp: compare_places_def rating_key_def count_key_def Let_def)

lemma ranks_before_total: "\<not> ranks_before a b \<Longrightarrow> ranks_before b a"
  by (auto simp: ranks_before_def)

lemma ranks_before_trans: "ranks_before a b \<Longrightarrow> ranks_before b c \<Longrightarrow> ranks_before a c"
  by (auto simp: ranks_before_def)

lemma sorted_insert_sorted:
  "sorted_wrt ranks_before ys \<Longrightarrow> sorted_wrt ranks_before (insert_sorted compare_places x ys)"
proof (induction ys)
  case Nil
  then show ?case by simp
next
  case (Cons y ys)
  show ?case
  proof (cases "compare_places x y \<le> 0")
    case True
    then have xy: "ranks_before x y" by (simp add: compare_places_le)
    have "\<forall>z\<in>set ys. ranks_before x z"
      using Cons.prems xy by (auto intro: ranks_before_trans)
    with True xy Cons.prems show ?thesis by simp
  next
    case False
    then have yx: "ranks_before y x"
      by (simp add: compare_places_le ranks_before_total)
    with False Cons show ?thesis by (auto simp: set_insert_sorted)
  qed
qed

lemma sorted_sort_places: "sorted_wrt ranks_before (sort_places ps)"
  unfolding sort_places_def array_sort_def
  by (induction ps) (simp_all add: sorted_insert_sorted)

text \<open>An inserted place passes only places that differ from it in a key.\<close>

lemma filter_insert_sorted:
  "filter (\<lambda>p. rating_key p = r \<and> count_key p = c) (insert_sorted compare_places x ys)
     = (if rating_key x = r \<and> count_key x = c then [x] else [])
       @ filter (\<lambda>p. rating_key p = r \<and> count_key p = c) ys"
proof (induction ys)
  case Nil
  then show ?case by simp
next
  case (Cons y ys)
  show ?case
  proof (cases "compare_places x y \<le> 0")
    case True
    then show ?thesis by simp
  next
    case False
    then have "\<not> (rating_key x = rating_key y \<and> count_key x = count_key y)"
      using compare_places_zero [of x y] by auto
    with False Cons show ?thesis by auto
  qed
qed

lemma stable_sort_places:
  "filter (\<lambda>p. rating_key p = r \<and> count_key p = c) (sort_places ps)
     = filter (\<lambda>p. rating_key p = r \<and> count_key p = c) ps"
  unfolding sort_places_def array_sort_def
  by (induction ps) (simp_all add: filter_insert_sorted)

text \<open>
  C4: the sort stage permutes the places, leaves them ordered by rating descending and,
  at equal ratings, by rating count descending, an absent rating or count read as 0, and
  is stable: the places of any one pair of keys stand in their original order. Places
  rated 4.5, 4.5 and 3.0 with counts 10, 50 and 999 come out as 4.5/50, 4.5/10, 3.0/999.
\<close>

theorem sort_places_order:
  "mset (sort_places ps) = mset ps
   \<and> sorted_wrt ranks_before (sort_places ps)
   \<and> filter (\<lambda>p. rating_key p = r \<and> count_key p = c) (sort_places ps)
       = filter (\<lambda>p. rating_key p = r \<and> count_key p = c) ps
   \<and> sort_places
        [p\<lparr>rating := Some 4.5, ratingsTotal := Some 10\<rparr>,
         p\<lparr>rating := Some 4.5, ratingsTotal := Some 50\<rparr>,
         p\<lparr>rating := Some 3.0, ratingsTotal := Some 999\<rparr>]
       = [p\<lparr>rating := Some 4.5, ratingsTotal := Some 50\<rparr>,
          p\<lparr>rating := Some 4.5, ratingsTotal := Some 10\<rparr>,
          p\<lparr>rating := Some 3.0, ratingsTotal := Some 999\<rparr>]"
proof -
  have example: "sort_places
        [p\<lparr>rating := Some 4.5, ratingsTotal := Some 10\<rparr>,
         p\<lparr>rating := Some 4.5, ratingsTotal := Some 50\<rparr>,
         p\<lparr>rating := Some 3.0, ratingsTotal := Some 999\<rparr>]
       = [p\<lparr>rating := Some 4.5, ratingsTotal := Some 50\<rparr>,
          p\<lparr>rating := Some 4.5, ratingsTotal := Some 10\<rparr>,
          p\<lparr>rating := Some 3.0, ratingsTotal := Some 999\<rparr>]"
    by (simp add: sort_places_def array_sort_def compare_places_def js_or_def)
  have "mset (sort_places ps) = mset ps"
    by (simp add: sort_places_def mset_array_sort)
  with example show ?thesis
    by (simp only: sorted_sort_places stable_sort_places simp_thms)
qed

subsection \<open>The filters\<close>









section \<open>Properties of the ambience tags\<close>

lemma fold_keyword_step:
  "fold (keyword_step t) kws found
     = fold add_tag (map snd (filter (\<lambda>(pattern, tag). pattern_test pattern t) kws)) found"
  by (induction kws arbitrary: found) (auto simp: keyword_step_def add_tag_def)

lemma extract_fold:
  "fold (\<lambda>review. fold (keyword_step (text_or_empty (review_text review))) atmosphere_keywords)
       rs found
     = fold add_tag (concat (map matched_tags rs)) found"
  by (induction rs arbitrary: found) (simp_all add: fold_keyword_step matched_tags_def)

lemma add_tag_take: "add_tag x (take 4 found) = take 4 (set_add found x)"
  by (auto simp: add_tag_def set_add_def min_def dest: in_set_takeD)

lemma fold_add_tag_take:
  "fold add_tag ts (take 4 found) = take 4 (fold (\<lambda>x f. set_add f x) ts found)"
proof (induction ts arbitrary: found)
  case Nil
  then show ?case by simp
next
  case (Cons x ts)
  have "fold add_tag (x # ts) (take 4 found) = fold add_tag ts (take 4 (set_add found x))"
    by (simp add: add_tag_take)
  also have "\<dots> = take 4 (fold (\<lambda>x f. set_add f x) ts (set_add found x))"
    by (rule Cons.IH)
  finally show ?case by simp
qed

lemma set_first_occurrences [simp]: "set (first_occurrences xs) = set xs"
  by (induction xs) auto

lemma distinct_first_occurrences [simp]: "distinct (first_occurrences xs)"
  by (induction xs) auto

lemma first_occurrences_distinct: "distinct xs \<Longrightarrow> first_occurrences xs = xs"
  by (induction xs) (auto simp: filter_id_conv)

lemma fold_set_add:
  "fold (\<lambda>x f. set_add f x) ts found
     = found @ filter (\<lambda>y. y \<notin> set found) (first_occurrences ts)"
proof (induction ts arbitrary: found)
  case Nil
  then show ?case by simp
next
  case (Cons x ts)
  show ?case
  proof (cases "x \<in> set found")
    case True
    have "filter (\<lambda>y. y \<notin> set found) (filter (\<lambda>y. y \<noteq> x) (first_occurrences ts))
            = filter (\<lambda>y. y \<notin> set found) (first_occurrences ts)"
      using True by (auto intro: filter_cong)
    with True Cons [of found] show ?thesis
      by (simp add: set_add_def)
  next
    case False
    have "filter (\<lambda>y. y \<notin> set (found @ [x])) (first_occurrences ts)
            = filter (\<lambda>y. y \<notin> set found) (filter (\<lambda>y. y \<noteq> x) (first_occurrences ts))"
      by (auto intro: filter_cong)
    with False Cons [of "found @ [x]"] show ?thesis
      by (simp add: set_add_def)
  qed
qed

lemma fold_set_add_Nil: "fold (\<lambda>x f. set_add f x) ts [] = first_occurrences ts"
  by (simp add: fold_set_add)

lemma first_occurrences_append:
  "first_occurrences (xs @ ys)
     = first_occurrences xs @ filter (\<lambda>y. y \<notin> set xs) (first_occurrences ys)"
proof -
  have "first_occurrences (xs @ ys) = fold (\<lambda>x f. set_add f x) (xs @ ys) []"
    by (simp only: fold_set_add_Nil)
  also have "\<dots> = fold (\<lambda>x f. set_add f x) ys (first_occurrences xs)"
    by (simp only: fold_append o_apply fold_set_add_Nil)
  also have "\<dots> = first_occurrences xs @ filter (\<lambda>y. y \<notin> set xs) (first_occurrences ys)"
    by (simp only: fold_set_add set_first_occurrences)
  finally show ?thesis .
qed

lemma extract_eq:
  "extractAtmosphereFromReviews rs = take 4 (first_occurrences (concat (map matched_tags rs)))"
proof -
  have "extractAtmosphereFromReviews rs = fold add_tag (concat (map matched_tags rs)) (take 4 [])"
    by (simp add: extractAtmosphereFromReviews_def extract_fold)
  also have "\<dots> = take 4 (fold (\<lambda>x f. set_add f x) (concat (map matched_tags rs)) [])"
    by (rule fold_add_tag_take)
  finally show ?thesis
    by (simp add: fold_set_add)
qed

lemma distinct_tags: "distinct (map snd atmosphere_keywords)"
  by (simp add: atmosphere_keywords_def)

lemma distinct_matched_tags: "distinct (matched_tags r)"
  unfolding matched_tags_def by (rule distinct_map_filter) (rule distinct_tags)

lemma set_subseq: "subseq M L \<Longrightarrow> set M \<subseteq> set L"
  by (induction rule: list_emb.induct) auto

lemma filter_subseq: "subseq M L \<Longrightarrow> distinct L \<Longrightarrow> filter (\<lambda>t. t \<in> set M) L = M"
proof (induction rule: list_emb.induct)
  case (list_emb_Nil ys)
  then show ?case by simp
next
  case (list_emb_Cons xs ys y)
  then have "y \<notin> set xs"
    using set_subseq [of xs ys] by auto
  with list_emb_Cons show ?case by simp
next
  case (list_emb_Cons2 x y xs ys)
  from list_emb_Cons2.prems have fresh: "y \<notin> set ys"
    by simp
  have "filter (\<lambda>t. t = y \<or> t \<in> set xs) ys = filter (\<lambda>t. t \<in> set xs) ys"
    by (rule filter_cong) (use fresh in auto)
  also have "\<dots> = xs"
    using list_emb_Cons2.IH list_emb_Cons2.prems by simp
  finally show ?case
    using list_emb_Cons2.hyps(1) by simp
qed

lemma subseq_matched_tags: "subseq (take n (matched_tags r)) (map snd atmosphere_keywords)"
proof -
  have "subseq (take n (matched_tags r)) (matched_tags r)"
    by (simp add: prefix_imp_subseq take_is_prefix)
  moreover have "subseq (matched_tags r) (map snd atmosphere_keywords)"
    unfolding matched_tags_def by (intro subseq_map subseq_filter_left)
  ultimately show ?thesis
    by (rule subseq_order.order_trans)
qed

lemma in_rule_order_matched: "in_rule_order (take n (matched_tags r))"
  unfolding in_rule_order_def
  by (rule filter_subseq [symmetric]) (rule subseq_matched_tags, rule distinct_tags)

lemma example_tags:
  "matched_tags date_review = [snd (atmosphere_keywords ! 4)]"
  "matched_tags night_view_review = [snd (atmosphere_keywords ! 0)]"
  by (simp_all add: matched_tags_def date_review_def night_view_review_def atmosphere_keywords_def
      pattern_test_def canonicalize_def text_or_empty_def)

text \<open>
  C7, as the code has it: the extraction returns at most 4 distinct tags; they are the
  first four tags in the order of first match, the reviews scanned in their order and,
  within a review, the rules in the order of the rule list; more reviews only extend
  the tags found so far, none is replaced; for a single review the tags are in the
  order of the rule list.
\<close>

theorem extractAtmosphere_scan_order:
  "extractAtmosphereFromReviews rs = take 4 (first_occurrences (concat (map matched_tags rs)))
   \<and> length (extractAtmosphereFromReviews rs) \<le> 4
   \<and> distinct (extractAtmosphereFromReviews rs)
   \<and> prefix (extractAtmosphereFromReviews rs) (extractAtmosphereFromReviews (rs @ rs'))
   \<and> extractAtmosphereFromReviews [r] = take 4 (matched_tags r)
   \<and> in_rule_order (extractAtmosphereFromReviews [r])"
proof -
  have single: "extractAtmosphereFromReviews [r] = take 4 (matched_tags r)"
    by (simp add: extract_eq first_occurrences_distinct distinct_matched_tags)
  have grow: "prefix (extractAtmosphereFromReviews rs) (extractAtmosphereFromReviews (rs @ rs'))"
    by (simp add: extract_eq first_occurrences_append prefix_def)
  show ?thesis
    using single grow in_rule_order_matched [of 4 r]
    by (simp add: extract_eq [of rs])
qed

text \<open>
  C7 as stated fails: a tag that a later rule finds in the first review stands before
  the tag that an earlier rule finds in the second review, so the returned tags are not
  in the order of the rule list.
\<close>

theorem extractAtmosphere_rule_order_counterexample:
  "extractAtmosphereFromReviews [date_review, night_view_review]
     = [snd (atmosphere_keywords ! 4), snd (atmosphere_keywords ! 0)]
   \<and> \<not> in_rule_order (extractAtmosphereFromReviews [date_review, night_view_review])"
proof -
  have result: "extractAtmosphereFromReviews [date_review, night_view_review]
     = [snd (atmosphere_keywords ! 4), snd (atmosphere_keywords ! 0)]"
    by (simp add: extract_eq example_tags) (simp add: atmosphere_keywords_def)
  have "\<not> in_rule_order [snd (atmosphere_keywords ! 4), snd (atmosphere_keywords ! 0)]"
    by (simp add: in_rule_order_def atmosphere_keywords_def)
  with result show ?thesis by simp
qed

section \<open>Properties of the clock\<close>

lemma isCurrentlyOpen_reading:
  "clk 0 = clk' 0 \<Longrightarrow> fst (isCurrentlyOpen weekdayText clk) = fst (isCurrentlyOpen weekdayText clk')"
  by (simp add: isCurrentlyOpen_def new_Date_def Let_def split: option.splits)

lemma snd_isCurrentlyOpen:
  "snd (isCurrentlyOpen weekdayText clk)
     = (if weekdayText = None \<or> weekdayText = Some [] then clk else (\<lambda>n. clk (Suc n)))"
  by (simp add: isCurrentlyOpen_def new_Date_def Let_def split: option.splits)

lemma snd_formatPlace:
  "snd (formatPlace calcDistance r userLocation clk) = (\<lambda>n. clk (Suc n))"
  by (simp add: formatPlace_def estimateCongestion_eq Let_def)

lemma formatPlaces_frozen:
  "snd (formatPlaces calcDistance userLocation rs (frozen now)) = frozen now"
proof (induction rs)
  case Nil
  then show ?case by simp
next
  case (Cons r rs)
  have "snd (formatPlace calcDistance r userLocation (frozen now)) = frozen now"
    by (simp add: snd_formatPlace frozen_def)
  with Cons show ?case
    by (simp add: case_prod_beta Let_def)
qed

lemma searchNearby_frozen:
  "snd (searchNearby calcDistance service userLocation flt (frozen now)) = frozen now"
  by (simp add: searchNearby_def case_prod_beta Let_def formatPlaces_frozen
      split: option.splits status.splits)

text \<open>
  C9, as the code has it: \<open>estimateCongestion\<close> and \<open>isCurrentlyOpen\<close> have no time
  parameter; each reads the clock once, on entry (\<open>isCurrentlyOpen\<close> not at all when the
  table is absent or empty), and its result is decided by its arguments and that
  reading: two runs with the same arguments whose clocks give the same reading return the
  same result. On a frozen clock a search leaves the clock as it is, and a second search
  with the same inputs returns the same output.
\<close>

theorem clock_reading_decides:
  "(\<forall>place clk clk'.
      clk 0 = clk' 0
      \<longrightarrow> fst (estimateCongestion place clk) = fst (estimateCongestion place clk'))
   \<and> (\<forall>weekdayText clk clk'.
        clk 0 = clk' 0
        \<longrightarrow> fst (isCurrentlyOpen weekdayText clk) = fst (isCurrentlyOpen weekdayText clk'))
   \<and> snd (estimateCongestion place0 clk0) = (\<lambda>n. clk0 (Suc n))
   \<and> snd (isCurrentlyOpen weekdayText0 clk0)
       = (if weekdayText0 = None \<or> weekdayText0 = Some [] then clk0 else (\<lambda>n. clk0 (Suc n)))
   \<and> (let (out1, clk1) = searchNearby calcDistance service userLocation flt (frozen now);
           (out2, clk2) = searchNearby calcDistance service userLocation flt clk1
       in out1 = out2)"
proof (intro conjI allI impI)
  fix place :: place_result and clk clk' :: clock
  assume "clk 0 = clk' 0"
  then show "fst (estimateCongestion place clk) = fst (estimateCongestion place clk')"
    by (simp add: estimateCongestion_eq)
next
  fix weekdayText :: "js_value list option" and clk clk' :: clock
  assume "clk 0 = clk' 0"
  then show "fst (isCurrentlyOpen weekdayText clk) = fst (isCurrentlyOpen weekdayText clk')"
    by (rule isCurrentlyOpen_reading)
next
  show "snd (estimateCongestion place0 clk0) = (\<lambda>n. clk0 (Suc n))"
    by (simp add: estimateCongestion_eq)
next
  show "snd (isCurrentlyOpen weekdayText0 clk0)
       = (if weekdayText0 = None \<or> weekdayText0 = Some [] then clk0 else (\<lambda>n. clk0 (Suc n)))"
    by (rule snd_isCurrentlyOpen)
next
  have "snd (searchNearby calcDistance service userLocation flt (frozen now)) = frozen now"
    by (rule searchNearby_frozen)
  then show "let (out1, clk1) = searchNearby calcDistance service userLocation flt (frozen now);
           (out2, clk2) = searchNearby calcDistance service userLocation flt clk1
       in out1 = out2"
    by (simp add: Let_def case_prod_beta)
qed

theorem clock_reading_decides_witness:
  "fst (estimateCongestion sample_place ticking_clock)
     = fst (estimateCongestion sample_place
         (frozen \<lparr>getDay = 2, getHours = 13, getMinutes = 59\<rparr>))
   \<and> fst (isCurrentlyOpen (Some (replicate 7 (JString standard_text))) ticking_clock)
     = fst (isCurrentlyOpen (Some (replicate 7 (JString standard_text)))
         (frozen \<lparr>getDay = 2, getHours = 13, getMinutes = 59\<rparr>))"
proof -
  note a = clock_reading_decides [THEN conjunct1, rule_format]
  note b = clock_reading_decides [THEN conjunct2, THEN conjunct1, rule_format]
  have same: "ticking_clock 0 = frozen \<lparr>getDay = 2, getHours = 13, getMinutes = 59\<rparr> 0"
    by (simp add: ticking_clock_def frozen_def)
  show ?thesis
    using a [of ticking_clock "frozen \<lparr>getDay = 2, getHours = 13, getMinutes = 59\<rparr>"
          sample_place]
      b [of ticking_clock "frozen \<lparr>getDay = 2, getHours = 13, getMinutes = 59\<rparr>"
          "Some (replicate 7 (JString standard_text))"] same
    by simp
qed

text \<open>
  C9 as stated fails: the time is not among the arguments. With the same arguments,
  \<open>estimateCongestion\<close> returns different verdicts at 13:59 and at 14:00, and
  \<open>isCurrentlyOpen\<close> different decisions at 20:00 and at 20:01; and within one search,
  \<open>formatPlace\<close> reads the clock anew for every result, so that two equal results get
  different congestion levels when the hour changes between the two readings.
\<close>

theorem time_not_explicit_counterexample:
  "fst (estimateCongestion sample_place (frozen \<lparr>getDay = 2, getHours = 13, getMinutes = 59\<rparr>))
     \<noteq> fst (estimateCongestion sample_place
           (frozen \<lparr>getDay = 2, getHours = 14, getMinutes = 0\<rparr>))
   \<and> fst (isCurrentlyOpen (Some (replicate 7 (JString standard_text)))
            (frozen \<lparr>getDay = 5, getHours = 20, getMinutes = 0\<rparr>))
     \<noteq> fst (isCurrentlyOpen (Some (replicate 7 (JString standard_text)))
            (frozen \<lparr>getDay = 5, getHours = 20, getMinutes = 1\<rparr>))
   \<and> map level (map congestion
        (fst (formatPlaces fixed_distance sample_location [sample_place, sample_place]
                ticking_clock)))
     = [ascii ''high'', ascii ''medium'']"
proof -
  have a: "level (fst (estimateCongestion sample_place
              (frozen \<lparr>getDay = 2, getHours = 13, getMinutes = 59\<rparr>))) = ascii ''high''"
    and b: "level (fst (estimateCongestion sample_place
              (frozen \<lparr>getDay = 2, getHours = 14, getMinutes = 0\<rparr>))) = ascii ''medium''"
    by (simp_all add: estimateCongestion_eq sample_place_def congestion_spec_def verdict_spec_def
        time_score_spec_def popularity_score_spec_def js_or_def frozen_def)
  have ne: "ascii ''high'' \<noteq> ascii ''medium''"
    by (simp add: ascii_def)
  have first: "fst (estimateCongestion sample_place
        (frozen \<lparr>getDay = 2, getHours = 13, getMinutes = 59\<rparr>))
     \<noteq> fst (estimateCongestion sample_place
           (frozen \<lparr>getDay = 2, getHours = 14, getMinutes = 0\<rparr>))"
    using a b ne by auto
  have third: "map level (map congestion
        (fst (formatPlaces fixed_distance sample_location [sample_place, sample_place]
                ticking_clock)))
     = [ascii ''high'', ascii ''medium'']"
    by (simp add: formatPlace_def estimateCongestion_eq ticking_clock_def sample_place_def
        congestion_spec_def verdict_spec_def time_score_spec_def popularity_score_spec_def
        js_or_def Let_def split: prod.splits)
  have second: "fst (isCurrentlyOpen (Some (replicate 7 (JString standard_text)))
            (frozen \<lparr>getDay = 5, getHours = 20, getMinutes = 0\<rparr>))
     \<noteq> fst (isCurrentlyOpen (Some (replicate 7 (JString standard_text)))
            (frozen \<lparr>getDay = 5, getHours = 20, getMinutes = 1\<rparr>))"
    by (simp add: standard_at range_verdict_def)
  from first second third show ?thesis
    by (intro conjI)
qed

end
